theory Spec2Isabelle
  imports Main "HOL-Library.Sublist" "HOL-Library.Char_ord" "HOL-Library.Word"
begin

section \<open>Go strings as byte lists\<close>

text \<open>
  A Go \<^verbatim>\<open>string\<close> is a sequence of bytes; it is modelled as \<^typ>\<open>string\<close>
  (a list of 8-bit characters). The functions of Go's \<^verbatim>\<open>strings\<close> package that the
  program calls are written out below on bytes. Every separator and cut set the program
  passes to them is ASCII, and an ASCII byte never occurs inside a multi-byte UTF-8
  sequence, so working on bytes gives what Go computes on runes.
\<close>

definition strings_HasPrefix :: "string \<Rightarrow> string \<Rightarrow> bool" where
  "strings_HasPrefix s p = prefix p s"

definition strings_HasSuffix :: "string \<Rightarrow> string \<Rightarrow> bool" where
  "strings_HasSuffix s p = suffix p s"

definition strings_TrimPrefix :: "string \<Rightarrow> string \<Rightarrow> string" where
  "strings_TrimPrefix s p = (if strings_HasPrefix s p then drop (length p) s else s)"

definition strings_TrimSuffix :: "string \<Rightarrow> string \<Rightarrow> string" where
  "strings_TrimSuffix s p = (if strings_HasSuffix s p then take (length s - length p) s else s)"

text \<open>\<^verbatim>\<open>strings.Index(s, sub)\<close>: the position of the first occurrence, \<open>None\<close> for Go's -1.\<close>

fun strings_Index :: "string \<Rightarrow> string \<Rightarrow> nat option" where
  "strings_Index [] sub = (if sub = [] then Some 0 else None)"
| "strings_Index (c # cs) sub =
     (if prefix sub (c # cs) then Some 0 else map_option Suc (strings_Index cs sub))"

definition strings_Contains :: "string \<Rightarrow> string \<Rightarrow> bool" where
  "strings_Contains s sub = (strings_Index s sub \<noteq> None)"

text \<open>\<^verbatim>\<open>strings.IndexAny(s, chars)\<close> for a set of ASCII bytes.\<close>

fun strings_IndexAny :: "string \<Rightarrow> string \<Rightarrow> nat option" where
  "strings_IndexAny [] chars = None"
| "strings_IndexAny (c # cs) chars =
     (if c \<in> set chars then Some 0 else map_option Suc (strings_IndexAny cs chars))"

text \<open>
  \<^verbatim>\<open>strings.ReplaceAll(s, old, new)\<close> for an \<open>old\<close> of one byte, the only way the
  program calls it.
\<close>

definition strings_ReplaceAll :: "string \<Rightarrow> char \<Rightarrow> string \<Rightarrow> string" where
  "strings_ReplaceAll s old new = concat (map (\<lambda>c. if c = old then new else [c]) s)"

text \<open>\<^verbatim>\<open>strings.Trim(s, cutset)\<close> for a cut set of ASCII bytes.\<close>

definition strings_Trim :: "string \<Rightarrow> string \<Rightarrow> string" where
  "strings_Trim s cutset =
     rev (dropWhile (\<lambda>c. c \<in> set cutset) (rev (dropWhile (\<lambda>c. c \<in> set cutset) s)))"

text \<open>
  \<^verbatim>\<open>strings.TrimSpace\<close> removes leading and trailing white space as Unicode defines
  it (\<^verbatim>\<open>unicode.IsSpace\<close>): the six ASCII bytes TAB, LF, VT, FF, CR, SPACE, and in
  UTF-8 the code points U+0085 and U+00A0 (two bytes), U+1680, U+2000 to U+200A,
  U+2028, U+2029, U+202F, U+205F and U+3000 (three bytes).
\<close>

definition is_space1 :: "char \<Rightarrow> bool" where
  "is_space1 c = (c \<in> {CHR 0x09, CHR 0x0A, CHR 0x0B, CHR 0x0C, CHR 0x0D, CHR 0x20})"

definition is_space2 :: "char \<Rightarrow> char \<Rightarrow> bool" where
  "is_space2 a b = (a = CHR 0xC2 \<and> (b = CHR 0x85 \<or> b = CHR 0xA0))"

definition is_space3 :: "char \<Rightarrow> char \<Rightarrow> char \<Rightarrow> bool" where
  "is_space3 a b c =
     ((a = CHR 0xE1 \<and> b = CHR 0x9A \<and> c = CHR 0x80) \<or>
      (a = CHR 0xE2 \<and> b = CHR 0x80 \<and>
         ((of_char c :: nat) \<in> {0x80..0x8A} \<or> c = CHR 0xA8 \<or> c = CHR 0xA9 \<or> c = CHR 0xAF)) \<or>
      (a = CHR 0xE2 \<and> b = CHR 0x81 \<and> c = CHR 0x9F) \<or>
      (a = CHR 0xE3 \<and> b = CHR 0x80 \<and> c = CHR 0x80))"

fun trim_left_space :: "string \<Rightarrow> string" where
  "trim_left_space (a # b # c # r) =
     (if is_space1 a then trim_left_space (b # c # r)
      else if is_space2 a b then trim_left_space (c # r)
      else if is_space3 a b c then trim_left_space r
      else a # b # c # r)"
| "trim_left_space [a, b] =
     (if is_space1 a then trim_left_space [b]
      else if is_space2 a b then []
      else [a, b])"
| "trim_left_space [a] = (if is_space1 a then [] else [a])"
| "trim_left_space [] = []"

text \<open>The same from the end, on the reversed string (so the bytes of a rune come last first).\<close>

fun trim_right_space_rev :: "string \<Rightarrow> string" where
  "trim_right_space_rev (c # b # a # r) =
     (if is_space1 c then trim_right_space_rev (b # a # r)
      else if is_space2 b c then trim_right_space_rev (a # r)
      else if is_space3 a b c then trim_right_space_rev r
      else c # b # a # r)"
| "trim_right_space_rev [c, b] =
     (if is_space1 c then trim_right_space_rev [b]
      else if is_space2 b c then []
      else [c, b])"
| "trim_right_space_rev [c] = (if is_space1 c then [] else [c])"
| "trim_right_space_rev [] = []"

definition strings_TrimSpace :: "string \<Rightarrow> string" where
  "strings_TrimSpace s = rev (trim_right_space_rev (rev (trim_left_space s)))"

text \<open>\<^verbatim>\<open>strings.Split(s, sep)\<close> for a separator of one byte: never the empty list.\<close>

fun strings_Split :: "string \<Rightarrow> char \<Rightarrow> string list" where
  "strings_Split [] sep = [[]]"
| "strings_Split (c # cs) sep =
     (if c = sep then [] # strings_Split cs sep
      else (case strings_Split cs sep of
              [] \<Rightarrow> [[c]]
            | w # ws \<Rightarrow> (c # w) # ws))"

text \<open>
  \<^verbatim>\<open>strings.FieldsFunc(s, f)\<close> for a predicate \<open>f\<close> on ASCII bytes: the maximal runs
  of bytes that do not satisfy \<open>f\<close>; no field is empty.
\<close>

definition strings_FieldsFunc :: "string \<Rightarrow> (char \<Rightarrow> bool) \<Rightarrow> string list" where
  "strings_FieldsFunc s f =
     filter (\<lambda>w. w \<noteq> [])
       (foldr (\<lambda>c acc. if f c then [] # acc
                        else (case acc of [] \<Rightarrow> [[c]] | w # ws \<Rightarrow> (c # w) # ws)) s [[]])"

section \<open>Pattern normalisation (main.go)\<close>

definition normalizeURLForCDX :: "string \<Rightarrow> bool \<Rightarrow> string" where
  "normalizeURLForCDX u subs =
     (let s = strings_TrimSpace u;
          s = strings_TrimPrefix s ''http://'';
          s = strings_TrimPrefix s ''https://'';
          s = (case strings_IndexAny s [CHR ''/'', CHR '':'', CHR 0x5C, CHR 0x5C] of
                 Some idx \<Rightarrow> take idx s
               | None \<Rightarrow> s);
          s = strings_ReplaceAll s (CHR ''*'') [];
          s = strings_Trim s '' .''
      in if subs then ''*.'' @ s
         else if \<not> strings_Contains u ''*'' then s @ ''*''
         else u)"

section \<open>The Go standard library: net/url\<close>

text \<open>
  The program parses every line with \<^verbatim>\<open>url.Parse\<close>, reads the fields \<^verbatim>\<open>Path\<close>,
  \<^verbatim>\<open>RawQuery\<close> and \<^verbatim>\<open>Host\<close> of the result, serialises with \<^verbatim>\<open>URL.String\<close> and
  decodes query keys with \<^verbatim>\<open>url.QueryUnescape\<close>. The type \<^verbatim>\<open>url.URL\<close> is a record
  with Go's fields.
\<close>

record Userinfo =
  username :: string
  password :: string
  passwordSet :: bool

record URL =
  Scheme :: string
  Opaque :: string
  User :: "Userinfo option"
  Host :: string
  Path :: string
  RawPath :: string
  OmitHost :: bool
  ForceQuery :: bool
  RawQuery :: string
  Fragment :: string
  RawFragment :: string

text \<open>
  The library functions the program calls are the fields of a record, so that the
  general theorems below hold for whatever these functions compute; an error return
  is \<open>None\<close>. \<^verbatim>\<open>strings.ToLower\<close> is among them because it maps every Unicode
  letter, which is not written out here.
\<close>

record golib =
  url_Parse :: "string \<Rightarrow> URL option"
  url_String :: "URL \<Rightarrow> string"
  url_QueryUnescape :: "string \<Rightarrow> string option"
  strings_ToLower :: "string \<Rightarrow> string"

subsection \<open>A model of net/url for concrete inputs\<close>

text \<open>
  For statements about concrete lines the library is instantiated with the definitions
  of this subsection, which follow the Go sources of \<^verbatim>\<open>net/url\<close> (as of Go 1.22)
  function by function: \<^verbatim>\<open>getScheme\<close>, \<^verbatim>\<open>shouldEscape\<close>, \<^verbatim>\<open>unescape\<close>,
  \<^verbatim>\<open>escape\<close>, \<^verbatim>\<open>parseHost\<close>, \<^verbatim>\<open>parseAuthority\<close>, \<^verbatim>\<open>setPath\<close>,
  \<^verbatim>\<open>setFragment\<close>, \<^verbatim>\<open>parse\<close>, \<^verbatim>\<open>Parse\<close>, \<^verbatim>\<open>EscapedPath\<close>,
  \<^verbatim>\<open>EscapedFragment\<close> and \<^verbatim>\<open>String\<close>. \<open>None\<close> stands for any error.
\<close>

datatype encoding =
  encodePath | encodePathSegment | encodeHost | encodeZone
  | encodeUserPassword | encodeQueryComponent | encodeFragment

definition is_alpha :: "char \<Rightarrow> bool" where
  "is_alpha c = ((CHR ''a'' \<le> c \<and> c \<le> CHR ''z'') \<or> (CHR ''A'' \<le> c \<and> c \<le> CHR ''Z''))"

definition is_digit :: "char \<Rightarrow> bool" where
  "is_digit c = (CHR ''0'' \<le> c \<and> c \<le> CHR ''9'')"

definition ishex :: "char \<Rightarrow> bool" where
  "ishex c = (is_digit c \<or> (CHR ''a'' \<le> c \<and> c \<le> CHR ''f'') \<or> (CHR ''A'' \<le> c \<and> c \<le> CHR ''F''))"

definition unhex :: "char \<Rightarrow> nat" where
  "unhex c =
     (if is_digit c then of_char c - of_char (CHR ''0'')
      else if CHR ''a'' \<le> c \<and> c \<le> CHR ''f'' then of_char c - of_char (CHR ''a'') + 10
      else if CHR ''A'' \<le> c \<and> c \<le> CHR ''F'' then of_char c - of_char (CHR ''A'') + 10
      else 0)"

definition upperhex :: "nat \<Rightarrow> char" where
  "upperhex n = ''0123456789ABCDEF'' ! (n mod 16)"

definition shouldEscape :: "char \<Rightarrow> encoding \<Rightarrow> bool" where
  "shouldEscape c mode =
     (if is_alpha c \<or> is_digit c then False
      else if (mode = encodeHost \<or> mode = encodeZone) \<and>
              c \<in> set [CHR ''!'', CHR ''$'', CHR ''&'', CHR 0x27, CHR ''('', CHR '')'', CHR ''*'',
                         CHR ''+'', CHR '','', CHR '';'', CHR ''='', CHR '':'', CHR ''['', CHR '']'',
                         CHR ''<'', CHR ''>'', CHR 0x22]
      then False
      else if c \<in> set [CHR ''-'', CHR ''_'', CHR ''.'', CHR ''~''] then False
      else if c \<in> set [CHR ''$'', CHR ''&'', CHR ''+'', CHR '','', CHR ''/'', CHR '':'', CHR '';'',
                         CHR ''='', CHR ''?'', CHR ''@'']
      then (case mode of
              encodePath \<Rightarrow> c = CHR ''?''
            | encodePathSegment \<Rightarrow> c \<in> set [CHR ''/'', CHR '';'', CHR '','', CHR ''?'']
            | encodeUserPassword \<Rightarrow> c \<in> set [CHR ''@'', CHR ''/'', CHR ''?'', CHR '':'']
            | encodeQueryComponent \<Rightarrow> True
            | encodeFragment \<Rightarrow> False
            | _ \<Rightarrow> True)
      else if mode = encodeFragment \<and> c \<in> set [CHR ''!'', CHR ''('', CHR '')'', CHR ''*''] then False
      else True)"

fun unescape :: "string \<Rightarrow> encoding \<Rightarrow> string option" where
  "unescape [] mode = Some []"
| "unescape (c # cs) mode =
     (if c = CHR ''%'' then
        (case cs of
           h1 # h2 # rest \<Rightarrow>
             if \<not> ishex h1 \<or> \<not> ishex h2 then None
             else if mode = encodeHost \<and> unhex h1 < 8 \<and> [h1, h2] \<noteq> ''25'' then None
             else if mode = encodeZone \<and> [h1, h2] \<noteq> ''25''
                     \<and> char_of (unhex h1 * 16 + unhex h2) \<noteq> CHR '' ''
                     \<and> shouldEscape (char_of (unhex h1 * 16 + unhex h2)) encodeHost then None
             else map_option ((#) (char_of (unhex h1 * 16 + unhex h2))) (unescape rest mode)
         | _ \<Rightarrow> None)
      else if c = CHR ''+'' then
        map_option ((#) (if mode = encodeQueryComponent then CHR '' '' else CHR ''+''))
          (unescape cs mode)
      else if (mode = encodeHost \<or> mode = encodeZone) \<and> (of_char c :: nat) < 0x80
              \<and> shouldEscape c encodeHost then None
      else map_option ((#) c) (unescape cs mode))"

definition QueryUnescape :: "string \<Rightarrow> string option" where
  "QueryUnescape s = unescape s encodeQueryComponent"

definition escape :: "string \<Rightarrow> encoding \<Rightarrow> string" where
  "escape s mode =
     concat (map (\<lambda>c. if c = CHR '' '' \<and> mode = encodeQueryComponent then ''+''
                      else if shouldEscape c mode
                        then [CHR ''%'', upperhex (of_char c div 16), upperhex (of_char c mod 16)]
                      else [c]) s)"

text \<open>\<^verbatim>\<open>strings.Cut(s, sep)\<close> for a separator of one byte: before, after, found.\<close>

definition strings_Cut :: "string \<Rightarrow> char \<Rightarrow> string \<times> string \<times> bool" where
  "strings_Cut s sep =
     (case strings_IndexAny s [sep] of
        Some i \<Rightarrow> (take i s, drop (Suc i) s, True)
      | None \<Rightarrow> (s, [], False))"

fun strings_LastIndex :: "string \<Rightarrow> char \<Rightarrow> nat option" where
  "strings_LastIndex [] c = None"
| "strings_LastIndex (x # xs) c =
     (case strings_LastIndex xs c of
        Some i \<Rightarrow> Some (Suc i)
      | None \<Rightarrow> if x = c then Some 0 else None)"

definition ascii_ToLower :: "string \<Rightarrow> string" where
  "ascii_ToLower s =
     map (\<lambda>c. if CHR ''A'' \<le> c \<and> c \<le> CHR ''Z'' then char_of (of_char c + (32::nat)) else c) s"

definition stringContainsCTLByte :: "string \<Rightarrow> bool" where
  "stringContainsCTLByte s = (\<exists>b \<in> set s. (of_char b :: nat) < 0x20 \<or> b = CHR 0x7F)"

fun getScheme_from :: "string \<Rightarrow> nat \<Rightarrow> string \<Rightarrow> (string \<times> string) option" where
  "getScheme_from rawURL i [] = Some ([], rawURL)"
| "getScheme_from rawURL i (c # cs) =
     (if is_alpha c then getScheme_from rawURL (Suc i) cs
      else if is_digit c \<or> c = CHR ''+'' \<or> c = CHR ''-'' \<or> c = CHR ''.'' then
        (if i = 0 then Some ([], rawURL) else getScheme_from rawURL (Suc i) cs)
      else if c = CHR '':'' then
        (if i = 0 then None else Some (take i rawURL, drop (Suc i) rawURL))
      else Some ([], rawURL))"

definition getScheme :: "string \<Rightarrow> (string \<times> string) option" where
  "getScheme rawURL = getScheme_from rawURL 0 rawURL"

definition validOptionalPort :: "string \<Rightarrow> bool" where
  "validOptionalPort port =
     (case port of
        [] \<Rightarrow> True
      | c # ds \<Rightarrow> c = CHR '':'' \<and> (\<forall>b \<in> set ds. is_digit b))"

definition validUserinfo :: "string \<Rightarrow> bool" where
  "validUserinfo s =
     (\<forall>r \<in> set s. is_alpha r \<or> is_digit r \<or>
        r \<in> set [CHR ''-'', CHR ''.'', CHR ''_'', CHR '':'', CHR ''~'', CHR ''!'', CHR ''$'',
                   CHR ''&'', CHR 0x27, CHR ''('', CHR '')'', CHR ''*'', CHR ''+'', CHR '','',
                   CHR '';'', CHR ''='', CHR ''%'', CHR ''@''])"

definition parseHost :: "string \<Rightarrow> string option" where
  "parseHost host =
     (if strings_HasPrefix host ''['' then
        (case strings_LastIndex host (CHR '']'') of
           None \<Rightarrow> None
         | Some i \<Rightarrow>
             if \<not> validOptionalPort (drop (Suc i) host) then None
             else (case strings_Index (take i host) ''%25'' of
                     Some zone \<Rightarrow>
                       (case unescape (take zone host) encodeHost of
                          None \<Rightarrow> None
                        | Some host1 \<Rightarrow>
                            (case unescape (drop zone (take i host)) encodeZone of
                               None \<Rightarrow> None
                             | Some host2 \<Rightarrow>
                                 (case unescape (drop i host) encodeHost of
                                    None \<Rightarrow> None
                                  | Some host3 \<Rightarrow> Some (host1 @ host2 @ host3))))
                   | None \<Rightarrow> unescape host encodeHost))
      else
        (case strings_LastIndex host (CHR '':'') of
           Some i \<Rightarrow>
             if \<not> validOptionalPort (drop i host) then None else unescape host encodeHost
         | None \<Rightarrow> unescape host encodeHost))"

definition parseAuthority :: "string \<Rightarrow> (Userinfo option \<times> string) option" where
  "parseAuthority authority =
     (case strings_LastIndex authority (CHR ''@'') of
        None \<Rightarrow> map_option (\<lambda>h. (None, h)) (parseHost authority)
      | Some i \<Rightarrow>
          (case parseHost (drop (Suc i) authority) of
             None \<Rightarrow> None
           | Some host \<Rightarrow>
               let userinfo = take i authority in
               if \<not> validUserinfo userinfo then None
               else if \<not> strings_Contains userinfo '':'' then
                 (case unescape userinfo encodeUserPassword of
                    None \<Rightarrow> None
                  | Some un \<Rightarrow>
                      Some (Some \<lparr>username = un, password = [], passwordSet = False\<rparr>, host))
               else
                 (case strings_Cut userinfo (CHR '':'') of
                    (un0, pw0, _) \<Rightarrow>
                      (case unescape un0 encodeUserPassword of
                         None \<Rightarrow> None
                       | Some un \<Rightarrow>
                           (case unescape pw0 encodeUserPassword of
                              None \<Rightarrow> None
                            | Some pw \<Rightarrow>
                                Some (Some \<lparr>username = un, password = pw, passwordSet = True\<rparr>,
                                      host))))))"

definition emptyURL :: URL where
  "emptyURL = \<lparr>Scheme = [], Opaque = [], User = None, Host = [], Path = [], RawPath = [],
     OmitHost = False, ForceQuery = False, RawQuery = [], Fragment = [], RawFragment = []\<rparr>"

definition setPath :: "URL \<Rightarrow> string \<Rightarrow> URL option" where
  "setPath u p =
     (case unescape p encodePath of
        None \<Rightarrow> None
      | Some path \<Rightarrow>
          Some (u\<lparr>Path := path, RawPath := (if p = escape path encodePath then [] else p)\<rparr>))"

definition setFragment :: "URL \<Rightarrow> string \<Rightarrow> URL option" where
  "setFragment u f =
     (case unescape f encodeFragment of
        None \<Rightarrow> None
      | Some frag \<Rightarrow>
          Some (u\<lparr>Fragment := frag,
                  RawFragment := (if f = escape frag encodeFragment then [] else f)\<rparr>))"

text \<open>\<^verbatim>\<open>parse(rawURL, viaRequest)\<close> with \<^verbatim>\<open>viaRequest = false\<close>, as \<^verbatim>\<open>Parse\<close> calls it.\<close>

definition parse :: "string \<Rightarrow> URL option" where
  "parse rawURL =
     (if stringContainsCTLByte rawURL then None
      else if rawURL = ''*'' then Some (emptyURL\<lparr>Path := ''*''\<rparr>)
      else
        (case getScheme rawURL of
           None \<Rightarrow> None
         | Some (scheme0, rest0) \<Rightarrow>
             let scheme = ascii_ToLower scheme0;
                 force = (strings_HasSuffix rest0 ''?'' \<and> count_list rest0 (CHR ''?'') = 1);
                 rest = (if force then butlast rest0 else fst (strings_Cut rest0 (CHR ''?'')));
                 query = (if force then [] else fst (snd (strings_Cut rest0 (CHR ''?''))));
                 url = emptyURL\<lparr>Scheme := scheme, ForceQuery := force, RawQuery := query\<rparr>
             in
               if \<not> strings_HasPrefix rest ''/'' \<and> scheme \<noteq> [] then Some (url\<lparr>Opaque := rest\<rparr>)
               else if \<not> strings_HasPrefix rest ''/''
                       \<and> strings_Contains (fst (strings_Cut rest (CHR ''/''))) '':'' then None
               else if (scheme \<noteq> [] \<or> \<not> strings_HasPrefix rest ''///'')
                       \<and> strings_HasPrefix rest ''//'' then
                 (let authority0 = drop 2 rest;
                      authority = (case strings_Index authority0 ''/'' of
                                     Some i \<Rightarrow> take i authority0 | None \<Rightarrow> authority0);
                      rest' = (case strings_Index authority0 ''/'' of
                                 Some i \<Rightarrow> drop i authority0 | None \<Rightarrow> [])
                  in case parseAuthority authority of
                       None \<Rightarrow> None
                     | Some (user, host) \<Rightarrow> setPath (url\<lparr>User := user, Host := host\<rparr>) rest')
               else if scheme \<noteq> [] \<and> strings_HasPrefix rest ''/'' then
                 setPath (url\<lparr>OmitHost := True\<rparr>) rest
               else setPath url rest))"

definition Parse :: "string \<Rightarrow> URL option" where
  "Parse rawURL =
     (case strings_Cut rawURL (CHR ''#'') of
        (u, frag, _) \<Rightarrow>
          (case parse u of
             None \<Rightarrow> None
           | Some url \<Rightarrow> if frag = [] then Some url else setFragment url frag))"

definition validEncoded :: "string \<Rightarrow> encoding \<Rightarrow> bool" where
  "validEncoded s mode =
     (\<forall>c \<in> set s.
        c \<in> set [CHR ''!'', CHR ''$'', CHR ''&'', CHR 0x27, CHR ''('', CHR '')'', CHR ''*'', CHR ''+'',
                   CHR '','', CHR '';'', CHR ''='', CHR '':'', CHR ''@'', CHR ''['', CHR '']'', CHR ''%'']
        \<or> \<not> shouldEscape c mode)"

definition EscapedPath :: "URL \<Rightarrow> string" where
  "EscapedPath u =
     (if RawPath u \<noteq> [] \<and> validEncoded (RawPath u) encodePath
         \<and> unescape (RawPath u) encodePath = Some (Path u) then RawPath u
      else if Path u = ''*'' then ''*''
      else escape (Path u) encodePath)"

definition EscapedFragment :: "URL \<Rightarrow> string" where
  "EscapedFragment u =
     (if RawFragment u \<noteq> [] \<and> validEncoded (RawFragment u) encodeFragment
         \<and> unescape (RawFragment u) encodeFragment = Some (Fragment u) then RawFragment u
      else escape (Fragment u) encodeFragment)"

definition Userinfo_String :: "Userinfo \<Rightarrow> string" where
  "Userinfo_String ui =
     escape (username ui) encodeUserPassword
     @ (if passwordSet ui then '':'' @ escape (password ui) encodeUserPassword else [])"

definition URL_String :: "URL \<Rightarrow> string" where
  "URL_String u =
     (let buf = (if Scheme u \<noteq> [] then Scheme u @ '':'' else []);
          buf =
            (if Opaque u \<noteq> [] then buf @ Opaque u
             else
               let buf =
                     (if (Scheme u \<noteq> [] \<or> Host u \<noteq> [] \<or> User u \<noteq> None)
                         \<and> \<not> (OmitHost u \<and> Host u = [] \<and> User u = None)
                      then buf
                           @ (if Host u \<noteq> [] \<or> Path u \<noteq> [] \<or> User u \<noteq> None then ''//'' else [])
                           @ (case User u of Some ui \<Rightarrow> Userinfo_String ui @ ''@'' | None \<Rightarrow> [])
                           @ (if Host u \<noteq> [] then escape (Host u) encodeHost else [])
                      else buf);
                   path = EscapedPath u;
                   buf = (if path \<noteq> [] \<and> hd path \<noteq> CHR ''/'' \<and> Host u \<noteq> [] then buf @ ''/''
                          else buf);
                   buf = (if buf = [] \<and> strings_Contains (fst (strings_Cut path (CHR ''/''))) '':''
                          then buf @ ''./'' else buf)
               in buf @ path);
          buf = (if ForceQuery u \<or> RawQuery u \<noteq> [] then buf @ ''?'' @ RawQuery u else buf);
          buf = (if Fragment u \<noteq> [] then buf @ ''#'' @ EscapedFragment u else buf)
      in buf)"

text \<open>
  The library of the concrete statements. Its \<open>strings_ToLower\<close> lower-cases the ASCII
  letters and leaves every other byte alone, which is what \<^verbatim>\<open>strings.ToLower\<close> does on
  a string of ASCII bytes.
\<close>

definition go :: golib where
  "go = \<lparr>url_Parse = Parse, url_String = URL_String, url_QueryUnescape = QueryUnescape,
          strings_ToLower = ascii_ToLower\<rparr>"

section \<open>Configuration (config.go)\<close>

record Config =
  URLPattern :: string
  OutputFile :: string
  OnlyQuery :: bool
  OnlyQueryKeys :: bool
  NoQuery :: bool
  ExcludeExt :: string
  IncludeExt :: string
  ExcludeDefaults :: bool
  Workers :: int
  PageWorkers :: int
  ExtractPaths :: bool
  Subs :: bool
  Timeout :: int

text \<open>What \<^verbatim>\<open>ParseConfig\<close> returns when \<^verbatim>\<open>-u\<close> is the only flag given.\<close>

definition flag_defaults :: "string \<Rightarrow> Config" where
  "flag_defaults u =
     \<lparr>URLPattern = u, OutputFile = [], OnlyQuery = False, OnlyQueryKeys = False,
      NoQuery = False, ExcludeExt = [], IncludeExt = [], ExcludeDefaults = False,
      Workers = 20, PageWorkers = 10, ExtractPaths = False, Subs = False, Timeout = 80\<rparr>"

definition defaultExclude :: string where
  "defaultExclude =
     ''js,css,png,jpg,jpeg,gif,svg,webp,ico,bmp,tif,tiff,woff,woff2,ttf,eot,mp4,mp3,wav,avi,mov,mkv,zip,rar,7z,pdf''"

text \<open>
  \<^verbatim>\<open>EffectiveExclude\<close>; \<open>excludeProvided\<close> is what \<^verbatim>\<open>flag.Visit\<close> finds: whether
  \<^verbatim>\<open>-exclude-ext\<close> was on the command line.
\<close>

definition EffectiveExclude :: "Config \<Rightarrow> bool \<Rightarrow> string \<times> bool" where
  "EffectiveExclude c excludeProvided =
     (if ExcludeDefaults c then (defaultExclude, excludeProvided)
      else if \<not> excludeProvided then ([], excludeProvided)
      else if ExcludeExt c = [] then (defaultExclude, excludeProvided)
      else (ExcludeExt c, excludeProvided))"

definition NormalizeBaseDomain :: "Config \<Rightarrow> string" where
  "NormalizeBaseDomain c =
     (let baseDomain = URLPattern c;
          baseDomain = normalizeURLForCDX baseDomain False;
          baseDomain = strings_TrimPrefix baseDomain ''*.'';
          baseDomain = strings_TrimSuffix baseDomain ''*''
      in strings_Trim baseDomain '' .'')"

section \<open>The runner\<close>

text \<open>
  Of the fields of \<^verbatim>\<open>Runner\<close>, \<open>extRegex\<close> is the compiled expression seen through
  \<^verbatim>\<open>MatchString\<close> (\<open>None\<close> for \<^verbatim>\<open>nil\<close>) and \<open>outFile\<close> says whether an output file
  is open. The HTTP client is an input of the fetch functions below; the progress bar
  only receives the effects they record.
\<close>

record Runner =
  cfg :: Config
  extRegex :: "(string \<Rightarrow> bool) option"
  includeMode :: bool
  baseDomain :: string
  outFile :: bool

text \<open>
  Modelled from the spec: \<^verbatim>\<open>CompileExtRegex\<close>, which \<^verbatim>\<open>NewRunner\<close> calls and no source
  file defines. Section 4.1 of the specification: a non-empty include list gives a
  case-insensitive matcher over its extensions and include mode, the exclude list being
  ignored; otherwise a non-empty exclude list gives the same matcher over it and exclude
  mode; otherwise there is no matcher. A path matches if it ends in a dot followed by a
  listed extension; tokens that are empty after trimming are ignored. The lists are the
  comma-separated flag values; letters are compared as ASCII.
\<close>

definition ext_tokens :: "string \<Rightarrow> string list" where
  "ext_tokens s = filter (\<lambda>t. t \<noteq> []) (map strings_TrimSpace (strings_Split s (CHR '','')))"

definition ext_match :: "string list \<Rightarrow> string \<Rightarrow> bool" where
  "ext_match exts path =
     (\<exists>e \<in> set exts. suffix (ascii_ToLower (''.'' @ e)) (ascii_ToLower path))"

definition CompileExtRegex :: "string \<Rightarrow> string \<Rightarrow> (string \<Rightarrow> bool) option \<times> bool" where
  "CompileExtRegex includeExt excludeExt =
     (if ext_tokens includeExt \<noteq> [] then (Some (ext_match (ext_tokens includeExt)), True)
      else if ext_tokens excludeExt \<noteq> [] then (Some (ext_match (ext_tokens excludeExt)), False)
      else (None, False))"

text \<open>
  \<^verbatim>\<open>NewRunner\<close>: \<open>runner_literal\<close> is the struct it builds first, and \<open>created\<close> says
  whether \<^verbatim>\<open>os.Create\<close> succeeds on the output file when one is asked for.
\<close>

definition runner_literal :: "Config \<Rightarrow> bool \<Rightarrow> Runner" where
  "runner_literal c excludeProvided =
     (case CompileExtRegex (IncludeExt c) (fst (EffectiveExclude c excludeProvided)) of
        (re, incl) \<Rightarrow>
          \<lparr>cfg = c, extRegex = re, includeMode = incl,
           baseDomain = NormalizeBaseDomain c, outFile = False\<rparr>)"

definition NewRunner :: "Config \<Rightarrow> bool \<Rightarrow> bool \<Rightarrow> string + Runner" where
  "NewRunner c excludeProvided created =
     (let r = runner_literal c excludeProvided
      in if OutputFile c \<noteq> [] then
           (if created then Inr (r\<lparr>outFile := True\<rparr>) else Inl ''create output file'')
         else Inr r)"

subsection \<open>The line processor\<close>

text \<open>The loop over \<open>pairs\<close> in \<^verbatim>\<open>processLine\<close>.\<close>

fun query_keys :: "golib \<Rightarrow> string list \<Rightarrow> string list" where
  "query_keys L [] = []"
| "query_keys L (p # ps) =
     (if p = [] then query_keys L ps
      else
        let k = (case strings_Index p ''='' of Some idx \<Rightarrow> take idx p | None \<Rightarrow> p)
        in if k = [] then query_keys L ps
           else (case url_QueryUnescape L k of Some un \<Rightarrow> un | None \<Rightarrow> k) # query_keys L ps)"

definition processLine :: "golib \<Rightarrow> Runner \<Rightarrow> string \<Rightarrow> string list" where
  "processLine L r line0 =
     (let line = strings_TrimSpace line0 in
      if line = [] then []
      else
        let pu = url_Parse L line;
            path = (case pu of
                      Some u \<Rightarrow> if Path u \<noteq> [] then Path u else line
                    | None \<Rightarrow> line)
        in
          if (case extRegex r of
                None \<Rightarrow> False
              | Some re \<Rightarrow>
                  let match = re path
                  in (includeMode r \<and> \<not> match) \<or> (\<not> includeMode r \<and> match))
          then []
          else if OnlyQuery (cfg r) then
            (case pu of
               Some u \<Rightarrow> if RawQuery u \<noteq> [] then [RawQuery u] else []
             | None \<Rightarrow> [])
          else if OnlyQueryKeys (cfg r) then
            (case pu of
               Some u \<Rightarrow>
                 if RawQuery u \<noteq> [] then
                   query_keys L
                     (strings_FieldsFunc (RawQuery u) (\<lambda>r. r = CHR ''&'' \<or> r = CHR '';''))
                 else []
             | None \<Rightarrow> [])
          else
            (case (NoQuery (cfg r), pu) of
               (True, Some u) \<Rightarrow> [url_String L (u\<lparr>RawQuery := []\<rparr>)]
             | _ \<Rightarrow> [line]))"

text \<open>A worker of \<^verbatim>\<open>startWorkers\<close> sends what \<open>processLine\<close> returns, line after line.\<close>

definition worker :: "golib \<Rightarrow> Runner \<Rightarrow> string list \<Rightarrow> string list" where
  "worker L r lines = concat (map (processLine L r) lines)"

subsection \<open>The printer\<close>

text \<open>
  The printer is the only reader of the results channel. Its functions take the values
  in the order in which they arrive and return the values handed to
  \<^verbatim>\<open>writeWithProgress\<close>, in order; each of them is written as one line to standard
  output and to the output file when there is one. The sets are the maps
  \<^verbatim>\<open>seen\<close>, \<^verbatim>\<open>seenSubs\<close> and \<^verbatim>\<open>seenSeg\<close>.
\<close>

record sink_out =
  written :: "string list"
  saved :: bool

definition finishOutput :: "Runner \<Rightarrow> string list \<Rightarrow> sink_out" where
  "finishOutput r ws = \<lparr>written = ws, saved = outFile r\<rparr>"

fun printDefault_loop :: "string set \<Rightarrow> string list \<Rightarrow> string list" where
  "printDefault_loop seen [] = []"
| "printDefault_loop seen (res # rs) =
     (if res \<in> seen then printDefault_loop seen rs
      else res # printDefault_loop (insert res seen) rs)"

definition printDefault :: "Runner \<Rightarrow> string list \<Rightarrow> sink_out" where
  "printDefault r rs = finishOutput r (printDefault_loop {} rs)"

fun printSubdomains_loop :: "golib \<Rightarrow> string \<Rightarrow> string set \<Rightarrow> string list \<Rightarrow> string list" where
  "printSubdomains_loop L baseLower seenSubs [] = []"
| "printSubdomains_loop L baseLower seenSubs (res # rs) =
     (case url_Parse L res of
        None \<Rightarrow> printSubdomains_loop L baseLower seenSubs rs
      | Some u \<Rightarrow>
          let host = Host u;
              host = (case strings_Index host '':'' of Some idx \<Rightarrow> take idx host | None \<Rightarrow> host);
              host = strings_ToLower L (strings_TrimSpace host)
          in if host = [] \<or> host = baseLower then printSubdomains_loop L baseLower seenSubs rs
             else if strings_HasSuffix host (''.'' @ baseLower) then
               (if host \<in> seenSubs then printSubdomains_loop L baseLower seenSubs rs
                else host # printSubdomains_loop L baseLower (insert host seenSubs) rs)
             else printSubdomains_loop L baseLower seenSubs rs)"

definition printSubdomains :: "golib \<Rightarrow> Runner \<Rightarrow> string list \<Rightarrow> sink_out" where
  "printSubdomains L r rs =
     (if baseDomain r = [] then \<lparr>written = [], saved = False\<rparr>
      else finishOutput r (printSubdomains_loop L (strings_ToLower L (baseDomain r)) {} rs))"

fun printPaths_segs :: "string set \<Rightarrow> string list \<Rightarrow> string set \<times> string list" where
  "printPaths_segs seenSeg [] = (seenSeg, [])"
| "printPaths_segs seenSeg (seg0 # segs) =
     (let seg = strings_TrimSpace seg0 in
      if seg = [] then printPaths_segs seenSeg segs
      else if seg \<in> seenSeg then printPaths_segs seenSeg segs
      else (case printPaths_segs (insert seg seenSeg) segs of
              (seen', ws) \<Rightarrow> (seen', seg # ws)))"

fun printPaths_loop :: "golib \<Rightarrow> string set \<Rightarrow> string list \<Rightarrow> string list" where
  "printPaths_loop L seenSeg [] = []"
| "printPaths_loop L seenSeg (res # rs) =
     (case url_Parse L res of
        None \<Rightarrow> printPaths_loop L seenSeg rs
      | Some u \<Rightarrow>
          if Path u = [] then printPaths_loop L seenSeg rs
          else (case printPaths_segs seenSeg (strings_Split (Path u) (CHR ''/'')) of
                  (seen', ws) \<Rightarrow> ws @ printPaths_loop L seen' rs))"

definition printPaths :: "golib \<Rightarrow> Runner \<Rightarrow> string list \<Rightarrow> sink_out" where
  "printPaths L r rs = finishOutput r (printPaths_loop L {} rs)"

definition startPrinter :: "golib \<Rightarrow> Runner \<Rightarrow> string list \<Rightarrow> sink_out" where
  "startPrinter L r resultsCh =
     (if Subs (cfg r) then printSubdomains L r resultsCh
      else if ExtractPaths (cfg r) then printPaths L r resultsCh
      else printDefault r resultsCh)"

section \<open>Fetching\<close>

text \<open>
  The archive is outside the program. A response is its status code and what a
  \<^verbatim>\<open>bufio.Scanner\<close> over its body delivers: the tokens for which \<^verbatim>\<open>Scan\<close> returns
  true, each with the value \<^verbatim>\<open>Err\<close> has at that moment, and the value \<^verbatim>\<open>Err\<close> has
  once \<^verbatim>\<open>Scan\<close> has returned false. A Go \<^verbatim>\<open>error\<close> is its message, \<open>None\<close> for
  \<^verbatim>\<open>nil\<close>.
\<close>

record Scanner =
  tokens :: "(string \<times> string option) list"
  finalErr :: "string option"

record Response =
  StatusCode :: int
  Body :: Scanner

subsection \<open>strconv.Atoi\<close>

text \<open>
  An optional sign and decimal digits, nothing else; the value has to fit Go's
  \<^verbatim>\<open>int\<close>, taken as 64 bits wide. \<open>None\<close> is a syntax or range error.
\<close>

definition digits_value :: "string \<Rightarrow> int" where
  "digits_value ds = foldl (\<lambda>n ch. n * 10 + (int (of_char ch) - 48)) 0 ds"

definition strconv_Atoi :: "string \<Rightarrow> int option" where
  "strconv_Atoi s =
     (let ds = (if s \<noteq> [] \<and> (hd s = CHR ''-'' \<or> hd s = CHR ''+'') then tl s else s) in
      if ds = [] \<or> \<not> list_all is_digit ds then None
      else
        let n = (if hd s = CHR ''-'' then - digits_value ds else digits_value ds)
        in if - (2 ^ 63) \<le> n \<and> n \<le> 2 ^ 63 - 1 then Some n else None)"

subsection \<open>The page count\<close>

datatype run_error = BuildRequest string | FetchPageCount string | ReadPageCount string

text \<open>
  The loop of \<^verbatim>\<open>fetchPageCount\<close> over the scanner: the first token that is not blank
  once trimmed, with the scanner's error at the moment the loop is left.
\<close>

fun scan_numStr :: "(string \<times> string option) list \<Rightarrow> string option \<Rightarrow> string \<times> string option" where
  "scan_numStr [] fin = ([], fin)"
| "scan_numStr ((text, err) # ts) fin =
     (let line = strings_TrimSpace text in
      if line \<noteq> [] then (line, err) else scan_numStr ts fin)"

text \<open>
  \<^verbatim>\<open>fetchPageCount\<close>: \<open>newReq\<close> is the error of \<^verbatim>\<open>http.NewRequestWithContext\<close> and
  \<open>reply\<close> what \<^verbatim>\<open>client.Do\<close> returns, \<open>Inl\<close> for an error. The second component is
  what is printed to standard error.
\<close>

datatype warning = CouldNotParsePageCount string

definition fetchPageCount ::
  "string option \<Rightarrow> string + Response \<Rightarrow> (run_error + int) \<times> warning list" where
  "fetchPageCount newReq reply =
     (case newReq of
        Some err \<Rightarrow> (Inl (BuildRequest err), [])
      | None \<Rightarrow>
          (case reply of
             Inl err \<Rightarrow> (Inl (FetchPageCount err), [])
           | Inr resp \<Rightarrow>
               (case scan_numStr (tokens (Body resp)) (finalErr (Body resp)) of
                  (numStr, scanErr) \<Rightarrow>
                    (case scanErr of
                       Some err \<Rightarrow> (Inl (ReadPageCount err), [])
                     | None \<Rightarrow>
                         if numStr = [] then (Inr 0, [])
                         else (case strconv_Atoi numStr of
                                 None \<Rightarrow> (Inr 1, [CouldNotParsePageCount numStr])
                               | Some pages \<Rightarrow> (Inr pages, []))))))"

subsection \<open>Retrieval of one page\<close>

text \<open>What a fetcher does to the world, in order.\<close>

datatype effect =
  ClientDo nat
  | BodyClose
  | LogRetryWarning "string option"
  | LogPageError nat "string option"
  | LogReadWarning nat string
  | Render
  | Sleep nat

definition maxRetries :: nat where
  "maxRetries = 3"

definition attempt_ok :: "Response option \<times> string option \<Rightarrow> bool" where
  "attempt_ok out =
     (case out of
        (respP, ierr) \<Rightarrow>
          ierr = None \<and>
          (case respP of None \<Rightarrow> False | Some resp \<Rightarrow> 200 \<le> StatusCode resp \<and> StatusCode resp < 300))"

text \<open>
  The loop of \<^verbatim>\<open>fetchWithRetry\<close> from attempt number \<open>attempt\<close> on; \<open>ierr\<close> is the
  variable of that name. \<open>newReq\<close> is the error of \<^verbatim>\<open>http.NewRequestWithContext\<close>
  (the same at every attempt, the URL being the same), \<open>do n\<close> what the \<open>n\<close>-th call of
  \<^verbatim>\<open>client.Do\<close> returns. \<open>Sleep n\<close> is a sleep of \<open>n\<close> seconds.
\<close>

function fetchWithRetry_loop ::
  "string option \<Rightarrow> (nat \<Rightarrow> Response option \<times> string option) \<Rightarrow> nat \<Rightarrow> string option
     \<Rightarrow> (Response option \<times> string option) \<times> effect list" where
  "fetchWithRetry_loop newReq do attempt ierr =
     (if attempt \<le> maxRetries then
        (case newReq of
           Some err \<Rightarrow> ((None, Some err), [])
         | None \<Rightarrow>
             if attempt_ok (do attempt) then ((fst (do attempt), None), [ClientDo attempt])
             else
               (case fetchWithRetry_loop newReq do (Suc attempt) (snd (do attempt)) of
                  (res, tr) \<Rightarrow>
                    (res,
                     [ClientDo attempt]
                     @ (if fst (do attempt) \<noteq> None then [BodyClose] else [])
                     @ [LogRetryWarning (snd (do attempt)), Render, Sleep attempt]
                     @ tr)))
      else ((None, ierr), []))"
  by pat_completeness auto
termination
  by (relation "measure (\<lambda>(newReq, do, attempt, ierr). Suc maxRetries - attempt)") auto

declare fetchWithRetry_loop.simps [simp del]

definition fetchWithRetry ::
  "string option \<Rightarrow> (nat \<Rightarrow> Response option \<times> string option)
     \<Rightarrow> (Response option \<times> string option) \<times> effect list" where
  "fetchWithRetry newReq do = fetchWithRetry_loop newReq do 1 None"

subsection \<open>The page fetchers\<close>

text \<open>
  What the fetchers meet: \<open>ctx_Err p\<close> is the value of \<^verbatim>\<open>ctx.Err()\<close> when it is read
  for page \<open>p\<close>, \<open>newRequest p\<close> and \<open>client_Do p\<close> are the inputs of \<open>fetchWithRetry\<close> for
  that page.
\<close>

record fetch_env =
  ctx_Err :: "nat \<Rightarrow> string option"
  newRequest :: "nat \<Rightarrow> string option"
  client_Do :: "nat \<Rightarrow> nat \<Rightarrow> Response option \<times> string option"

text \<open>\<^verbatim>\<open>main\<close> runs the pipeline under \<^verbatim>\<open>context.Background()\<close>, whose \<^verbatim>\<open>Err\<close> is always nil.\<close>

definition context_Background :: "nat \<Rightarrow> string option" where
  "context_Background = (\<lambda>p. None)"

text \<open>
  The state the fetchers share: the lines sent on the channel \<open>jobs\<close>, the counter
  (an \<^verbatim>\<open>int32\<close> changed by \<^verbatim>\<open>atomic.AddInt32\<close> only) and the effects so far.
\<close>

record fetch_state =
  jobs :: "string list"
  pagesCompleted :: "32 word"
  effects :: "effect list"

text \<open>The body of the loop over \<open>pageJobs\<close>, after the check of the context.\<close>

definition fetch_page :: "fetch_env \<Rightarrow> nat \<Rightarrow> fetch_state \<Rightarrow> fetch_state" where
  "fetch_page env p st =
     (case fetchWithRetry (newRequest env p) (client_Do env p) of
        ((respP, ierr), tr) \<Rightarrow>
          (case (ierr, respP) of
             (None, Some resp) \<Rightarrow>
               st\<lparr>jobs := jobs st
                      @ filter (\<lambda>line. line \<noteq> [])
                          (map (\<lambda>t. strings_TrimSpace (fst t)) (tokens (Body resp))),
                   pagesCompleted := pagesCompleted st + 1,
                   effects := effects st @ tr
                      @ (case finalErr (Body resp) of
                           Some err \<Rightarrow> [LogReadWarning p err, Render]
                         | None \<Rightarrow> [])
                      @ [BodyClose, Render]\<rparr>
           | _ \<Rightarrow>
               st\<lparr>pagesCompleted := pagesCompleted st + 1,
                   effects := effects st @ tr @ [LogPageError p ierr, Render]\<rparr>))"

text \<open>One fetcher, receiving the page indices \<open>ps\<close> in this order.\<close>

fun fetcher :: "fetch_env \<Rightarrow> nat list \<Rightarrow> fetch_state \<Rightarrow> fetch_state" where
  "fetcher env [] st = st"
| "fetcher env (p # ps) st =
     (if ctx_Err env p \<noteq> None then st else fetcher env ps (fetch_page env p st))"

text \<open>
  \<^verbatim>\<open>Run\<close> sends the indices \<open>0, 1, ..\<close> below \<open>pages\<close> on the channel \<open>pageJobs\<close>; each is
  received by one fetcher. \<open>sched\<close> lists, fetcher by fetcher, the indices it receives.
  The fetchers touch the counter by atomic additions only, which commute, so its final
  value is that of running the fetchers one after the other.
\<close>

definition page_indices :: "int \<Rightarrow> nat list" where
  "page_indices pages = [0 ..< nat pages]"

definition startPageFetchers :: "fetch_env \<Rightarrow> nat list list \<Rightarrow> fetch_state \<Rightarrow> fetch_state" where
  "startPageFetchers env sched st = fold (fetcher env) sched st"

section \<open>What the specification says, in its own words\<close>

text \<open>
  The list \<open>keep_first xs\<close> keeps of every value its first occurrence and drops the
  later ones.
\<close>

fun keep_first :: "'a list \<Rightarrow> 'a list" where
  "keep_first [] = []"
| "keep_first (x # xs) = x # filter (\<lambda>y. y \<noteq> x) (keep_first xs)"

text \<open>
  The key of an incoming value in subdomains mode: the host of the parsed value, without
  its port, trimmed and in lower case, if it is not empty, is not the base domain and
  ends with a dot and the base domain.
\<close>

definition strip_port :: "string \<Rightarrow> string" where
  "strip_port host = takeWhile (\<lambda>c. c \<noteq> CHR '':'') host"

definition subdomain_key :: "golib \<Rightarrow> string \<Rightarrow> string \<Rightarrow> string option" where
  "subdomain_key L base v =
     (case url_Parse L v of
        None \<Rightarrow> None
      | Some u \<Rightarrow>
          let h = strings_ToLower L (strings_TrimSpace (strip_port (Host u)))
          in if h \<noteq> [] \<and> h \<noteq> strings_ToLower L base
                \<and> suffix (''.'' @ strings_ToLower L base) h
             then Some h else None)"

text \<open>The keys of an incoming value in extract-paths mode: its trimmed, non-empty path segments.\<close>

definition path_keys :: "golib \<Rightarrow> string \<Rightarrow> string list" where
  "path_keys L v =
     (case url_Parse L v of
        None \<Rightarrow> []
      | Some u \<Rightarrow>
          filter (\<lambda>seg. seg \<noteq> []) (map strings_TrimSpace (strings_Split (Path u) (CHR ''/''))))"

text \<open>The keys of a run, mode by mode, in the order of arrival.\<close>

definition dedup_keys :: "golib \<Rightarrow> Runner \<Rightarrow> string list \<Rightarrow> string list" where
  "dedup_keys L r rs =
     (if Subs (cfg r) then
        (if baseDomain r = [] then [] else List.map_filter (subdomain_key L (baseDomain r)) rs)
      else if ExtractPaths (cfg r) then concat (map (path_keys L) rs)
      else rs)"

text \<open>
  The string the extension filter is matched against: the URL path when the trimmed line
  parses with a non-empty path, and the whole trimmed line when it does not parse or
  parses with an empty path. Whether the filter drops a line: in include mode a line
  whose string does not match, in exclude mode a line whose string matches, and no line
  when there is no matcher.
\<close>

definition line_path :: "golib \<Rightarrow> string \<Rightarrow> string" where
  "line_path L line =
     (case url_Parse L (strings_TrimSpace line) of
        Some u \<Rightarrow> if Path u \<noteq> [] then Path u else strings_TrimSpace line
      | None \<Rightarrow> strings_TrimSpace line)"

definition filter_drops :: "golib \<Rightarrow> Runner \<Rightarrow> string \<Rightarrow> bool" where
  "filter_drops L r line =
     (case extRegex r of
        None \<Rightarrow> False
      | Some re \<Rightarrow> if includeMode r then \<not> re (line_path L line) else re (line_path L line))"

text \<open>
  The transforms of the line processor, one per mode, on a trimmed line \<open>t\<close>. A query is
  split on \<open>&\<close> and \<open>;\<close> into its non-empty pairs; the key of a pair is what precedes
  its first \<open>=\<close> (the whole pair without one); a key is decoded, or kept as it is when
  decoding fails. \<open>claimed_query_keys\<close> emits the key of every pair; \<open>emitted_query_keys\<close>
  leaves out the pairs whose key is empty.
\<close>

definition query_pairs :: "string \<Rightarrow> string list" where
  "query_pairs q = strings_FieldsFunc q (\<lambda>c. c = CHR ''&'' \<or> c = CHR '';'')"

definition query_key_of :: "string \<Rightarrow> string" where
  "query_key_of p = takeWhile (\<lambda>c. c \<noteq> CHR ''='') p"

definition decode_key :: "golib \<Rightarrow> string \<Rightarrow> string" where
  "decode_key L k = (case url_QueryUnescape L k of Some un \<Rightarrow> un | None \<Rightarrow> k)"

definition claimed_query_keys :: "golib \<Rightarrow> string \<Rightarrow> string list" where
  "claimed_query_keys L q = map (\<lambda>p. decode_key L (query_key_of p)) (query_pairs q)"

definition emitted_query_keys :: "golib \<Rightarrow> string \<Rightarrow> string list" where
  "emitted_query_keys L q =
     map (decode_key L) (filter (\<lambda>k. k \<noteq> []) (map query_key_of (query_pairs q)))"

definition only_query_transform :: "golib \<Rightarrow> string \<Rightarrow> string list" where
  "only_query_transform L t =
     (case url_Parse L t of
        Some u \<Rightarrow> if RawQuery u \<noteq> [] then [RawQuery u] else []
      | None \<Rightarrow> [])"

definition only_query_keys_transform :: "golib \<Rightarrow> string \<Rightarrow> string list" where
  "only_query_keys_transform L t =
     (case url_Parse L t of
        Some u \<Rightarrow> if RawQuery u \<noteq> [] then emitted_query_keys L (RawQuery u) else []
      | None \<Rightarrow> [])"

definition no_query_transform :: "golib \<Rightarrow> string \<Rightarrow> string list" where
  "no_query_transform L t =
     (case url_Parse L t of
        Some u \<Rightarrow> [url_String L (u\<lparr>RawQuery := []\<rparr>)]
      | None \<Rightarrow> [t])"

text \<open>
  The cleaned pattern: the pattern without the white space around it, without a leading
  \<open>http://\<close> and then a leading \<open>https://\<close> (\<open>strip_scheme\<close> knows these two
  lower-case spellings and no other scheme), cut at its first \<open>/\<close>, \<open>:\<close> or backslash,
  without its \<open>*\<close> and without dots and spaces at either end.
\<close>

definition strip_scheme :: "string \<Rightarrow> string" where
  "strip_scheme s = strings_TrimPrefix (strings_TrimPrefix s ''http://'') ''https://''"

definition cdx_clean :: "string \<Rightarrow> string" where
  "cdx_clean u =
     strings_Trim
       (filter (\<lambda>c. c \<noteq> CHR ''*'')
          (takeWhile (\<lambda>c. c \<noteq> CHR ''/'' \<and> c \<noteq> CHR '':'' \<and> c \<noteq> CHR 0x5C)
             (strip_scheme (strings_TrimSpace u))))
       '' .''"

text \<open>
  A host as a pattern is meant to hold it: no \<open>/\<close>, \<open>:\<close>, backslash or \<open>*\<close> in it, no
  dot or space at either end, and not the bare word \<open>http\<close> or \<open>https\<close>. What may
  follow a host: nothing, or something that starts with \<open>/\<close>, \<open>:\<close> or a backslash.
\<close>

definition cdx_host :: "string \<Rightarrow> bool" where
  "cdx_host h =
     ((\<forall>c \<in> set h. c \<noteq> CHR ''/'' \<and> c \<noteq> CHR '':'' \<and> c \<noteq> CHR 0x5C \<and> c \<noteq> CHR ''*'')
      \<and> (h \<noteq> [] \<longrightarrow> hd h \<noteq> CHR '' '' \<and> hd h \<noteq> CHR ''.''
                      \<and> last h \<noteq> CHR '' '' \<and> last h \<noteq> CHR ''.'')
      \<and> h \<noteq> ''http'' \<and> h \<noteq> ''https'')"

definition cdx_tail :: "string \<Rightarrow> bool" where
  "cdx_tail t = (t = [] \<or> hd t = CHR ''/'' \<or> hd t = CHR '':'' \<or> hd t = CHR 0x5C)"

text \<open>
  The effects of a failed attempt number \<open>n\<close> with outcome \<open>out\<close>: the request, the
  closing of the body when there is a response, the warning, and a sleep of \<open>n\<close>
  seconds. \<open>attempts\<close> counts the requests among the effects.
\<close>

definition failed_attempt :: "nat \<Rightarrow> Response option \<times> string option \<Rightarrow> effect list" where
  "failed_attempt n out =
     [ClientDo n] @ (if fst out \<noteq> None then [BodyClose] else [])
     @ [LogRetryWarning (snd out), Render, Sleep n]"

definition attempts :: "effect list \<Rightarrow> nat" where
  "attempts tr = length (filter (\<lambda>e. case e of ClientDo n \<Rightarrow> True | _ \<Rightarrow> False) tr)"

text \<open>The state in which \<^verbatim>\<open>Run\<close> starts the fetchers.\<close>

definition fetch_init :: fetch_state where
  "fetch_init = \<lparr>jobs = [], pagesCompleted = 0, effects = []\<rparr>"

section \<open>Properties\<close>

subsection \<open>Strings\<close>

lemma strings_TrimSpace_Nil [simp]: "strings_TrimSpace [] = []"
  by (simp add: strings_TrimSpace_def)

lemma strings_Index_byte:
  "(case strings_Index s [c] of Some idx \<Rightarrow> take idx s | None \<Rightarrow> s) = takeWhile (\<lambda>x. x \<noteq> c) s"
  by (induction s) (auto split: option.splits)

subsection \<open>The printer writes every key once\<close>

lemma set_keep_first: "set (keep_first xs) = set xs"
  by (induction xs) auto

lemma distinct_keep_first: "distinct (keep_first xs)"
  by (induction xs) (auto simp: set_keep_first)

lemma in_set_map_filter:
  "y \<in> set (List.map_filter f xs) \<longleftrightarrow> (\<exists>x \<in> set xs. f x = Some y)"
  by (induction xs) (auto split: option.splits)

lemma printDefault_loop_keep_first:
  "printDefault_loop seen rs = filter (\<lambda>x. x \<notin> seen) (keep_first rs)"
proof (induction rs arbitrary: seen)
  case Nil
  show ?case by simp
next
  case (Cons x rs)
  show ?case
  proof (cases "x \<in> seen")
    case True
    then have "filter (\<lambda>y. y \<notin> seen) (filter (\<lambda>y. y \<noteq> x) (keep_first rs))
               = filter (\<lambda>y. y \<notin> seen) (keep_first rs)"
      by (auto simp: filter_filter intro: filter_cong)
    with True Cons show ?thesis by simp
  next
    case False
    have "filter (\<lambda>y. y \<notin> seen) (filter (\<lambda>y. y \<noteq> x) (keep_first rs))
               = filter (\<lambda>y. y \<notin> insert x seen) (keep_first rs)"
      by (auto simp: filter_filter intro: filter_cong)
    with False Cons show ?thesis by simp
  qed
qed

lemma printDefault_loop_append:
  "printDefault_loop seen (xs @ ys)
   = printDefault_loop seen xs @ printDefault_loop (seen \<union> set xs) ys"
  by (induction xs arbitrary: seen) (auto simp: insert_absorb)

lemma printSubdomains_loop_keep_first:
  "printSubdomains_loop L (strings_ToLower L base) seen rs
   = printDefault_loop seen (List.map_filter (subdomain_key L base) rs)"
proof (induction rs arbitrary: seen)
  case Nil
  show ?case by (simp add: map_filter_simps)
next
  case (Cons v rs)
  show ?case
    by (cases "url_Parse L v")
       (simp_all add: Cons map_filter_simps subdomain_key_def strip_port_def Let_def
          strings_Index_byte strings_HasSuffix_def)
qed

lemma printPaths_segs_keep_first:
  "printPaths_segs seen segs
   = (seen \<union> set (filter (\<lambda>seg. seg \<noteq> []) (map strings_TrimSpace segs)),
      printDefault_loop seen (filter (\<lambda>seg. seg \<noteq> []) (map strings_TrimSpace segs)))"
  by (induction segs arbitrary: seen) (auto simp: Let_def insert_absorb)

lemma printPaths_loop_keep_first:
  "printPaths_loop L seen rs = printDefault_loop seen (concat (map (path_keys L) rs))"
proof (induction rs arbitrary: seen)
  case Nil
  show ?case by simp
next
  case (Cons v rs)
  show ?case
  proof (cases "url_Parse L v")
    case None
    then show ?thesis by (simp add: Cons path_keys_def)
  next
    case (Some u)
    show ?thesis
    proof (cases "Path u = []")
      case True
      with Some show ?thesis by (simp add: Cons path_keys_def)
    next
      case False
      with Some show ?thesis
        by (simp add: Cons path_keys_def printPaths_segs_keep_first printDefault_loop_append)
    qed
  qed
qed

text \<open>
  Claim C3. Whatever the output mode, and in whatever order the values arrive at the
  printer, the values written are the keys of that mode (the lower-cased host in
  subdomains mode, the trimmed path segments in extract-paths mode, the value itself
  otherwise), each at its first occurrence and never again: no value is written twice.
\<close>

theorem sink_writes_each_key_once:
  "written (startPrinter L r rs) = keep_first (dedup_keys L r rs)
   \<and> distinct (written (startPrinter L r rs))"
proof -
  have "written (startPrinter L r rs) = keep_first (dedup_keys L r rs)"
    by (simp add: startPrinter_def printSubdomains_def printPaths_def printDefault_def
        finishOutput_def dedup_keys_def printSubdomains_loop_keep_first
        printPaths_loop_keep_first printDefault_loop_keep_first)
  then show ?thesis by (simp add: distinct_keep_first)
qed

theorem sink_writes_each_key_once_witness:
  "written (startPrinter go
      (runner_literal ((flag_defaults ''example.com'')\<lparr>ExtractPaths := True\<rparr>) False)
      [''http://h/a/b/a/'', ''http://h/c/b'']) = [''a'', ''b'', ''c'']"
proof -
  have keys: "dedup_keys go
      (runner_literal ((flag_defaults ''example.com'')\<lparr>ExtractPaths := True\<rparr>) False)
      [''http://h/a/b/a/'', ''http://h/c/b''] = [''a'', ''b'', ''a'', ''c'', ''b'']"
    by code_simp
  show ?thesis
    using sink_writes_each_key_once
      [of go "runner_literal ((flag_defaults ''example.com'')\<lparr>ExtractPaths := True\<rparr>) False"
         "[''http://h/a/b/a/'', ''http://h/c/b'']"]
    by (simp add: keys)
qed

subsection \<open>The line processor\<close>

lemma query_keys_eq:
  "query_keys L ps = map (decode_key L) (filter (\<lambda>k. k \<noteq> []) (map query_key_of ps))"
  by (induction ps) (simp_all add: Let_def strings_Index_byte query_key_of_def decode_key_def)

lemma processLine_blank: "strings_TrimSpace line = [] \<Longrightarrow> processLine L r line = []"
  by (simp add: processLine_def)

lemma processLine_dropped: "filter_drops L r line \<Longrightarrow> processLine L r line = []"
  by (auto simp: processLine_def filter_drops_def line_path_def Let_def
      split: option.splits if_splits)

lemma processLine_kept:
  assumes "strings_TrimSpace line \<noteq> []" and "\<not> filter_drops L r line"
  shows "processLine L r line =
     (if OnlyQuery (cfg r) then only_query_transform L (strings_TrimSpace line)
      else if OnlyQueryKeys (cfg r) then only_query_keys_transform L (strings_TrimSpace line)
      else if NoQuery (cfg r) then no_query_transform L (strings_TrimSpace line)
      else [strings_TrimSpace line])"
  using assms
  by (auto simp: processLine_def filter_drops_def line_path_def Let_def query_keys_eq
      emitted_query_keys_def query_pairs_def only_query_transform_def
      only_query_keys_transform_def no_query_transform_def
      split: option.splits if_splits)

lemma processLine_total:
  "processLine L r line =
     (if strings_TrimSpace line = [] \<or> filter_drops L r line then []
      else if OnlyQuery (cfg r) then only_query_transform L (strings_TrimSpace line)
      else if OnlyQueryKeys (cfg r) then only_query_keys_transform L (strings_TrimSpace line)
      else if NoQuery (cfg r) then no_query_transform L (strings_TrimSpace line)
      else [strings_TrimSpace line])"
  using processLine_blank [of line L r] processLine_dropped [of L r line]
    processLine_kept [of line L r]
  by presburger

lemma filter_drops_cfg: "filter_drops L (r\<lparr>cfg := c\<rparr>) line = filter_drops L r line"
  by (cases "extRegex r") (simp_all add: filter_drops_def)

lemma processLine_without_filter:
  "processLine L r line =
     (if filter_drops L r line then [] else processLine L (r\<lparr>extRegex := None\<rparr>) line)"
  by (auto simp: processLine_def filter_drops_def line_path_def Let_def
      split: option.splits if_splits)

text \<open>
  Claim C1, amended. In no-query mode, a line that is not blank and that the extension
  filter lets through gives exactly one value: when the trimmed line parses as a URL, the
  URL serialised again with its query cleared (so \<open>http://h/p?x=1\<close> gives \<open>http://h/p\<close>);
  when it does not parse, the trimmed line itself, as in default mode.
\<close>

theorem no_query_mode:
  "(NoQuery (cfg r) \<and> \<not> OnlyQuery (cfg r) \<and> \<not> OnlyQueryKeys (cfg r)
      \<and> strings_TrimSpace line \<noteq> [] \<and> \<not> filter_drops L r line
    \<longrightarrow> processLine L r line =
          (case url_Parse L (strings_TrimSpace line) of
             Some u \<Rightarrow> [url_String L (u\<lparr>RawQuery := []\<rparr>)]
           | None \<Rightarrow> [strings_TrimSpace line]))
   \<and> processLine go (runner_literal ((flag_defaults ''h'')\<lparr>NoQuery := True\<rparr>) False)
        ''http://h/p?x=1'' = [''http://h/p'']"
proof
  show "NoQuery (cfg r) \<and> \<not> OnlyQuery (cfg r) \<and> \<not> OnlyQueryKeys (cfg r)
      \<and> strings_TrimSpace line \<noteq> [] \<and> \<not> filter_drops L r line
    \<longrightarrow> processLine L r line =
          (case url_Parse L (strings_TrimSpace line) of
             Some u \<Rightarrow> [url_String L (u\<lparr>RawQuery := []\<rparr>)]
           | None \<Rightarrow> [strings_TrimSpace line])"
    by (simp add: processLine_kept no_query_transform_def)
  show "processLine go (runner_literal ((flag_defaults ''h'')\<lparr>NoQuery := True\<rparr>) False)
        ''http://h/p?x=1'' = [''http://h/p'']"
    by code_simp
qed

theorem no_query_mode_witness:
  "processLine go (runner_literal ((flag_defaults ''h'')\<lparr>NoQuery := True\<rparr>) False)
     ''  http://h/a%20b?c=d#e '' = [''http://h/a%20b#e'']"
proof -
  have pre: "NoQuery (cfg (runner_literal ((flag_defaults ''h'')\<lparr>NoQuery := True\<rparr>) False))
      \<and> \<not> OnlyQuery (cfg (runner_literal ((flag_defaults ''h'')\<lparr>NoQuery := True\<rparr>) False))
      \<and> \<not> OnlyQueryKeys (cfg (runner_literal ((flag_defaults ''h'')\<lparr>NoQuery := True\<rparr>) False))
      \<and> strings_TrimSpace ''  http://h/a%20b?c=d#e '' \<noteq> []
      \<and> \<not> filter_drops go (runner_literal ((flag_defaults ''h'')\<lparr>NoQuery := True\<rparr>) False)
            ''  http://h/a%20b?c=d#e ''"
    by code_simp
  have val: "(case url_Parse go (strings_TrimSpace ''  http://h/a%20b?c=d#e '') of
             Some u \<Rightarrow> [url_String go (u\<lparr>RawQuery := []\<rparr>)]
           | None \<Rightarrow> [strings_TrimSpace ''  http://h/a%20b?c=d#e '']) = [''http://h/a%20b#e'']"
    by code_simp
  from no_query_mode
    [of "runner_literal ((flag_defaults ''h'')\<lparr>NoQuery := True\<rparr>) False"
       "''  http://h/a%20b?c=d#e ''" go]
    pre val
  show ?thesis by presburger
qed

text \<open>
  The claim as it stands fails: this line does not parse, and it is not dropped.
\<close>

theorem no_query_mode_counterexample:
  "url_Parse go ''http://h/%zz?x=1'' = None
   \<and> processLine go (runner_literal ((flag_defaults ''h'')\<lparr>NoQuery := True\<rparr>) False)
        ''http://h/%zz?x=1'' = [''http://h/%zz?x=1'']"
  by code_simp

text \<open>
  Claim C6, amended. In only-query-keys mode, for a line that is not blank, passes the
  extension filter and parses to a URL with a non-empty raw query, the processor splits
  the query on \<open>&\<close> and \<open>;\<close>, takes of every non-empty pair what precedes its first
  \<open>=\<close> (the whole pair without one), skips the pair when that key is empty, decodes the
  key (keeping it as it is when decoding fails) and emits the keys in order, duplicates
  included. So \<open>http://h/p?a=1&b=2&a=3\<close> gives \<open>a, b, a\<close>, and the printer then
  writes \<open>a\<close> and \<open>b\<close>.
\<close>

theorem only_query_keys_mode:
  "(\<not> OnlyQuery (cfg r) \<and> OnlyQueryKeys (cfg r)
      \<and> strings_TrimSpace line \<noteq> [] \<and> \<not> filter_drops L r line
      \<and> url_Parse L (strings_TrimSpace line) = Some u \<and> RawQuery u \<noteq> []
    \<longrightarrow> processLine L r line = emitted_query_keys L (RawQuery u))
   \<and> processLine go (runner_literal ((flag_defaults ''h'')\<lparr>OnlyQueryKeys := True\<rparr>) False)
        ''http://h/p?a=1&b=2&a=3'' = [''a'', ''b'', ''a'']
   \<and> written (startPrinter go
        (runner_literal ((flag_defaults ''h'')\<lparr>OnlyQueryKeys := True\<rparr>) False)
        (worker go (runner_literal ((flag_defaults ''h'')\<lparr>OnlyQueryKeys := True\<rparr>) False)
           [''http://h/p?a=1&b=2&a=3''])) = [''a'', ''b'']"
proof (intro conjI)
  show "\<not> OnlyQuery (cfg r) \<and> OnlyQueryKeys (cfg r)
      \<and> strings_TrimSpace line \<noteq> [] \<and> \<not> filter_drops L r line
      \<and> url_Parse L (strings_TrimSpace line) = Some u \<and> RawQuery u \<noteq> []
    \<longrightarrow> processLine L r line = emitted_query_keys L (RawQuery u)"
    by (simp add: processLine_kept only_query_keys_transform_def)
  show "processLine go (runner_literal ((flag_defaults ''h'')\<lparr>OnlyQueryKeys := True\<rparr>) False)
        ''http://h/p?a=1&b=2&a=3'' = [''a'', ''b'', ''a'']"
    by code_simp
  show "written (startPrinter go
        (runner_literal ((flag_defaults ''h'')\<lparr>OnlyQueryKeys := True\<rparr>) False)
        (worker go (runner_literal ((flag_defaults ''h'')\<lparr>OnlyQueryKeys := True\<rparr>) False)
           [''http://h/p?a=1&b=2&a=3''])) = [''a'', ''b'']"
    by code_simp
qed

theorem only_query_keys_mode_witness:
  "processLine go (runner_literal ((flag_defaults ''h'')\<lparr>OnlyQueryKeys := True\<rparr>) False)
     ''http://h/p?a%20b=1;c+d&%zz=3&&e'' = [''a b'', ''c d'', ''%zz'', ''e'']"
proof -
  have pre: "\<not> OnlyQuery (cfg (runner_literal ((flag_defaults ''h'')\<lparr>OnlyQueryKeys := True\<rparr>) False))
      \<and> OnlyQueryKeys (cfg (runner_literal ((flag_defaults ''h'')\<lparr>OnlyQueryKeys := True\<rparr>) False))
      \<and> strings_TrimSpace ''http://h/p?a%20b=1;c+d&%zz=3&&e'' \<noteq> []
      \<and> \<not> filter_drops go (runner_literal ((flag_defaults ''h'')\<lparr>OnlyQueryKeys := True\<rparr>) False)
            ''http://h/p?a%20b=1;c+d&%zz=3&&e''
      \<and> url_Parse go (strings_TrimSpace ''http://h/p?a%20b=1;c+d&%zz=3&&e'')
          = Some (emptyURL\<lparr>Scheme := ''http'', Host := ''h'', Path := ''/p'',
                    RawQuery := ''a%20b=1;c+d&%zz=3&&e''\<rparr>)
      \<and> RawQuery (emptyURL\<lparr>Scheme := ''http'', Host := ''h'', Path := ''/p'',
                    RawQuery := ''a%20b=1;c+d&%zz=3&&e''\<rparr>) \<noteq> []"
    by code_simp
  have val: "emitted_query_keys go
      (RawQuery (emptyURL\<lparr>Scheme := ''http'', Host := ''h'', Path := ''/p'',
                    RawQuery := ''a%20b=1;c+d&%zz=3&&e''\<rparr>))
      = [''a b'', ''c d'', ''%zz'', ''e'']"
    by code_simp
  from only_query_keys_mode
    [of "runner_literal ((flag_defaults ''h'')\<lparr>OnlyQueryKeys := True\<rparr>) False"
       "''http://h/p?a%20b=1;c+d&%zz=3&&e''" go
       "emptyURL\<lparr>Scheme := ''http'', Host := ''h'', Path := ''/p'',
                    RawQuery := ''a%20b=1;c+d&%zz=3&&e''\<rparr>"]
    pre val
  show ?thesis by presburger
qed

text \<open>
  The claim as it stands fails: the pair \<open>=1\<close> is not empty and its key is the empty
  string, which the claim has emitted and the processor skips.
\<close>

theorem only_query_keys_mode_counterexample:
  "map_option RawQuery (url_Parse go ''http://h/p?=1&a=2'') = Some ''=1&a=2''
   \<and> claimed_query_keys go ''=1&a=2'' = [[], ''a'']
   \<and> processLine go (runner_literal ((flag_defaults ''h'')\<lparr>OnlyQueryKeys := True\<rparr>) False)
        ''http://h/p?=1&a=2'' = [''a'']"
  by code_simp

text \<open>
  Claim C7. In subdomains mode with a base domain, the printer writes, at its first
  occurrence only, the key of every incoming value that has one: the value is parsed as
  a URL, its host is cut at the port, trimmed and lower-cased, dropped when it is empty
  or equal to the lower-cased base domain, and kept only when it ends with a dot and
  the base domain. Without a base domain nothing is written, so in every case a written
  value is such a key. With the base domain \<open>example.com\<close>, \<open>http://a.example.com/x\<close>
  gives \<open>a.example.com\<close>, and \<open>http://example.com/x\<close> and \<open>http://notexample.com/x\<close>
  give nothing.
\<close>

theorem subdomains_mode:
  "(Subs (cfg r) \<and> baseDomain r \<noteq> []
    \<longrightarrow> written (startPrinter L r rs)
          = keep_first (List.map_filter (subdomain_key L (baseDomain r)) rs))
   \<and> (Subs (cfg r)
    \<longrightarrow> (\<forall>h \<in> set (written (startPrinter L r rs)).
            \<exists>v \<in> set rs. subdomain_key L (baseDomain r) v = Some h))
   \<and> baseDomain (runner_literal ((flag_defaults ''example.com'')\<lparr>Subs := True\<rparr>) False)
       = ''example.com''
   \<and> written (startPrinter go
        (runner_literal ((flag_defaults ''example.com'')\<lparr>Subs := True\<rparr>) False)
        [''http://a.example.com/x'']) = [''a.example.com'']
   \<and> written (startPrinter go
        (runner_literal ((flag_defaults ''example.com'')\<lparr>Subs := True\<rparr>) False)
        [''http://example.com/x'']) = []
   \<and> written (startPrinter go
        (runner_literal ((flag_defaults ''example.com'')\<lparr>Subs := True\<rparr>) False)
        [''http://notexample.com/x'']) = []"
proof (intro conjI)
  show general: "Subs (cfg r) \<and> baseDomain r \<noteq> []
    \<longrightarrow> written (startPrinter L r rs)
          = keep_first (List.map_filter (subdomain_key L (baseDomain r)) rs)"
    by (simp add: startPrinter_def printSubdomains_def finishOutput_def
        printSubdomains_loop_keep_first printDefault_loop_keep_first)
  show "Subs (cfg r)
    \<longrightarrow> (\<forall>h \<in> set (written (startPrinter L r rs)).
            \<exists>v \<in> set rs. subdomain_key L (baseDomain r) v = Some h)"
  proof (cases "baseDomain r = []")
    case True
    then show ?thesis by (simp add: startPrinter_def printSubdomains_def)
  next
    case False
    with general show ?thesis
      by (auto simp: set_keep_first in_set_map_filter)
  qed
  show "baseDomain (runner_literal ((flag_defaults ''example.com'')\<lparr>Subs := True\<rparr>) False)
       = ''example.com''"
    by code_simp
  show "written (startPrinter go
        (runner_literal ((flag_defaults ''example.com'')\<lparr>Subs := True\<rparr>) False)
        [''http://a.example.com/x'']) = [''a.example.com'']"
    by code_simp
  show "written (startPrinter go
        (runner_literal ((flag_defaults ''example.com'')\<lparr>Subs := True\<rparr>) False)
        [''http://example.com/x'']) = []"
    by code_simp
  show "written (startPrinter go
        (runner_literal ((flag_defaults ''example.com'')\<lparr>Subs := True\<rparr>) False)
        [''http://notexample.com/x'']) = []"
    by code_simp
qed

theorem subdomains_mode_witness:
  "written (startPrinter go
      (runner_literal ((flag_defaults ''example.com'')\<lparr>Subs := True\<rparr>) False)
      [''http://B.Example.com:8080/x'', ''http://example.com/'', ''http://b.example.com/y'',
       ''http://c.b.example.com'', ''http://h/%zz'']) = [''b.example.com'', ''c.b.example.com'']"
proof -
  have pre: "Subs (cfg (runner_literal ((flag_defaults ''example.com'')\<lparr>Subs := True\<rparr>) False))
      \<and> baseDomain (runner_literal ((flag_defaults ''example.com'')\<lparr>Subs := True\<rparr>) False) \<noteq> []"
    by code_simp
  have val: "keep_first (List.map_filter
      (subdomain_key go
         (baseDomain (runner_literal ((flag_defaults ''example.com'')\<lparr>Subs := True\<rparr>) False)))
      [''http://B.Example.com:8080/x'', ''http://example.com/'', ''http://b.example.com/y'',
       ''http://c.b.example.com'', ''http://h/%zz'']) = [''b.example.com'', ''c.b.example.com'']"
    by code_simp
  from subdomains_mode
    [of "runner_literal ((flag_defaults ''example.com'')\<lparr>Subs := True\<rparr>) False" go
       "[''http://B.Example.com:8080/x'', ''http://example.com/'', ''http://b.example.com/y'',
         ''http://c.b.example.com'', ''http://h/%zz'']"]
    pre val
  show ?thesis by presburger
qed

text \<open>
  Claim C8, amended. The extension filter is matched against the URL path of a line
  when the trimmed line parses as a URL with a non-empty path, and against the whole
  trimmed line otherwise (the line does not parse, or its URL has an empty path). The
  processor returns nothing for a line the filter drops and, for any other line, what it
  returns without a filter. With an include list the filter drops the lines whose
  string does not match, with an exclude list alone those whose string matches, and with
  neither list it drops nothing; a string matches when, letter case apart, it ends with
  a dot and a listed extension. With the include list \<open>json\<close> a line with the path
  \<open>/a/b.json\<close> is kept and one with \<open>/a/b.txt\<close> is dropped; with the exclude list
  \<open>png\<close> a line with the path \<open>/x.png\<close> is dropped and one with \<open>/x.html\<close> is kept.
\<close>

theorem extension_filter:
  "processLine L r line =
     (if filter_drops L r line then [] else processLine L (r\<lparr>extRegex := None\<rparr>) line)
   \<and> (ext_tokens (IncludeExt c) \<noteq> []
      \<longrightarrow> filter_drops L (runner_literal c ep) line
          = (\<not> ext_match (ext_tokens (IncludeExt c)) (line_path L line)))
   \<and> (ext_tokens (IncludeExt c) = [] \<and> ext_tokens (fst (EffectiveExclude c ep)) \<noteq> []
      \<longrightarrow> filter_drops L (runner_literal c ep) line
          = ext_match (ext_tokens (fst (EffectiveExclude c ep))) (line_path L line))
   \<and> (ext_tokens (IncludeExt c) = [] \<and> ext_tokens (fst (EffectiveExclude c ep)) = []
      \<longrightarrow> \<not> filter_drops L (runner_literal c ep) line)
   \<and> ext_match [''json''] ''/a/b.json'' \<and> \<not> ext_match [''json''] ''/a/b.txt''
   \<and> ext_match [''png''] ''/x.PNG'' \<and> \<not> ext_match [''png''] ''/x.html''
   \<and> line_path go ''http://h/a/b.json'' = ''/a/b.json''
   \<and> processLine go (runner_literal ((flag_defaults ''h'')\<lparr>IncludeExt := ''json''\<rparr>) False)
        ''http://h/a/b.json'' = [''http://h/a/b.json'']
   \<and> processLine go (runner_literal ((flag_defaults ''h'')\<lparr>IncludeExt := ''json''\<rparr>) False)
        ''http://h/a/b.txt'' = []
   \<and> processLine go (runner_literal ((flag_defaults ''h'')\<lparr>ExcludeExt := ''png''\<rparr>) True)
        ''http://h/x.png'' = []
   \<and> processLine go (runner_literal ((flag_defaults ''h'')\<lparr>ExcludeExt := ''png''\<rparr>) True)
        ''http://h/x.html'' = [''http://h/x.html'']
   \<and> processLine go (runner_literal (flag_defaults ''h'') False)
        ''http://h/x.png'' = [''http://h/x.png'']
   \<and> (url_Parse L (strings_TrimSpace line) = Some u \<and> Path u \<noteq> []
      \<longrightarrow> line_path L line = Path u)
   \<and> (url_Parse L (strings_TrimSpace line) = Some u \<and> Path u = []
      \<longrightarrow> line_path L line = strings_TrimSpace line)
   \<and> (url_Parse L (strings_TrimSpace line) = None
      \<longrightarrow> line_path L line = strings_TrimSpace line)"
proof (intro conjI)
  show "url_Parse L (strings_TrimSpace line) = Some u \<and> Path u \<noteq> []
      \<longrightarrow> line_path L line = Path u"
    by (simp add: line_path_def)
  show "url_Parse L (strings_TrimSpace line) = Some u \<and> Path u = []
      \<longrightarrow> line_path L line = strings_TrimSpace line"
    by (simp add: line_path_def)
  show "url_Parse L (strings_TrimSpace line) = None
      \<longrightarrow> line_path L line = strings_TrimSpace line"
    by (simp add: line_path_def)
  show "processLine L r line =
     (if filter_drops L r line then [] else processLine L (r\<lparr>extRegex := None\<rparr>) line)"
    by (rule processLine_without_filter)
  show "ext_tokens (IncludeExt c) \<noteq> []
      \<longrightarrow> filter_drops L (runner_literal c ep) line
          = (\<not> ext_match (ext_tokens (IncludeExt c)) (line_path L line))"
    by (simp add: filter_drops_def runner_literal_def CompileExtRegex_def)
  show "ext_tokens (IncludeExt c) = [] \<and> ext_tokens (fst (EffectiveExclude c ep)) \<noteq> []
      \<longrightarrow> filter_drops L (runner_literal c ep) line
          = ext_match (ext_tokens (fst (EffectiveExclude c ep))) (line_path L line)"
    by (simp add: filter_drops_def runner_literal_def CompileExtRegex_def)
  show "ext_tokens (IncludeExt c) = [] \<and> ext_tokens (fst (EffectiveExclude c ep)) = []
      \<longrightarrow> \<not> filter_drops L (runner_literal c ep) line"
    by (simp add: filter_drops_def runner_literal_def CompileExtRegex_def)
  show "ext_match [''json''] ''/a/b.json''"
    by code_simp
  show "\<not> ext_match [''json''] ''/a/b.txt''"
    by code_simp
  show "ext_match [''png''] ''/x.PNG''"
    by code_simp
  show "\<not> ext_match [''png''] ''/x.html''"
    by code_simp
  show "line_path go ''http://h/a/b.json'' = ''/a/b.json''"
    by code_simp
  show "processLine go (runner_literal ((flag_defaults ''h'')\<lparr>IncludeExt := ''json''\<rparr>) False)
        ''http://h/a/b.json'' = [''http://h/a/b.json'']"
    by code_simp
  show "processLine go (runner_literal ((flag_defaults ''h'')\<lparr>IncludeExt := ''json''\<rparr>) False)
        ''http://h/a/b.txt'' = []"
    by code_simp
  show "processLine go (runner_literal ((flag_defaults ''h'')\<lparr>ExcludeExt := ''png''\<rparr>) True)
        ''http://h/x.png'' = []"
    by code_simp
  show "processLine go (runner_literal ((flag_defaults ''h'')\<lparr>ExcludeExt := ''png''\<rparr>) True)
        ''http://h/x.html'' = [''http://h/x.html'']"
    by code_simp
  show "processLine go (runner_literal (flag_defaults ''h'') False)
        ''http://h/x.png'' = [''http://h/x.png'']"
    by code_simp
qed

theorem extension_filter_witness:
  "filter_drops go (runner_literal ((flag_defaults ''h'')\<lparr>IncludeExt := ''json, xml''\<rparr>) False)
     ''http://h/a/b.txt?x=c.json''
   \<and> processLine go (runner_literal ((flag_defaults ''h'')\<lparr>IncludeExt := ''json, xml''\<rparr>) False)
     ''http://h/a/b.txt?x=c.json'' = []"
proof -
  have pre: "ext_tokens (IncludeExt ((flag_defaults ''h'')\<lparr>IncludeExt := ''json, xml''\<rparr>)) \<noteq> []"
    by code_simp
  have val: "\<not> ext_match (ext_tokens (IncludeExt ((flag_defaults ''h'')\<lparr>IncludeExt := ''json, xml''\<rparr>)))
      (line_path go ''http://h/a/b.txt?x=c.json'')"
    by code_simp
  from extension_filter
    [of go "runner_literal ((flag_defaults ''h'')\<lparr>IncludeExt := ''json, xml''\<rparr>) False"
       "''http://h/a/b.txt?x=c.json''" "(flag_defaults ''h'')\<lparr>IncludeExt := ''json, xml''\<rparr>" False]
    pre val
  show ?thesis by presburger
qed

text \<open>
  The claim as it stands fails: the URL of \<open>http://example.com\<close> has an empty path,
  which matches no extension, yet the exclude list \<open>com\<close> drops the line; and the URL
  of \<open>http://h?f=a.json\<close> has an empty path too, yet the include list \<open>json\<close> keeps
  the line.
\<close>

theorem extension_filter_counterexample:
  "map_option Path (url_Parse go ''http://example.com'') = Some []
   \<and> \<not> ext_match [''com''] []
   \<and> processLine go (runner_literal ((flag_defaults ''h'')\<lparr>ExcludeExt := ''com''\<rparr>) True)
        ''http://example.com'' = []
   \<and> map_option Path (url_Parse go ''http://h?f=a.json'') = Some []
   \<and> \<not> ext_match [''json''] []
   \<and> processLine go (runner_literal ((flag_defaults ''h'')\<lparr>IncludeExt := ''json''\<rparr>) False)
        ''http://h?f=a.json'' = [''http://h?f=a.json'']"
  by code_simp

text \<open>
  Claim C10. One transform is applied to a line, chosen by a fixed order of the flags:
  with only-query set the other two flags make no difference, with only-query-keys set
  and only-query not set no-query makes no difference, and no-query comes before the
  default. The printer takes subdomains mode before extract-paths mode, and that
  before the default.
\<close>

theorem mode_precedence:
  "(OnlyQuery (cfg r)
    \<longrightarrow> processLine L r line
        = processLine L (r\<lparr>cfg := (cfg r)\<lparr>OnlyQueryKeys := False, NoQuery := False\<rparr>\<rparr>) line)
   \<and> (\<not> OnlyQuery (cfg r) \<and> OnlyQueryKeys (cfg r)
    \<longrightarrow> processLine L r line = processLine L (r\<lparr>cfg := (cfg r)\<lparr>NoQuery := False\<rparr>\<rparr>) line)
   \<and> (strings_TrimSpace line \<noteq> [] \<and> \<not> filter_drops L r line
    \<longrightarrow> processLine L r line =
         (if OnlyQuery (cfg r) then only_query_transform L (strings_TrimSpace line)
          else if OnlyQueryKeys (cfg r) then only_query_keys_transform L (strings_TrimSpace line)
          else if NoQuery (cfg r) then no_query_transform L (strings_TrimSpace line)
          else [strings_TrimSpace line]))
   \<and> (Subs (cfg r)
    \<longrightarrow> startPrinter L r rs = printSubdomains L r rs
      \<and> startPrinter L r rs = startPrinter L (r\<lparr>cfg := (cfg r)\<lparr>ExtractPaths := False\<rparr>\<rparr>) rs)
   \<and> (\<not> Subs (cfg r) \<and> ExtractPaths (cfg r) \<longrightarrow> startPrinter L r rs = printPaths L r rs)
   \<and> (\<not> Subs (cfg r) \<and> \<not> ExtractPaths (cfg r) \<longrightarrow> startPrinter L r rs = printDefault r rs)"
proof (intro conjI)
  show "OnlyQuery (cfg r)
    \<longrightarrow> processLine L r line
        = processLine L (r\<lparr>cfg := (cfg r)\<lparr>OnlyQueryKeys := False, NoQuery := False\<rparr>\<rparr>) line"
    by (simp add: processLine_total filter_drops_cfg)
  show "\<not> OnlyQuery (cfg r) \<and> OnlyQueryKeys (cfg r)
    \<longrightarrow> processLine L r line = processLine L (r\<lparr>cfg := (cfg r)\<lparr>NoQuery := False\<rparr>\<rparr>) line"
    by (simp add: processLine_total filter_drops_cfg)
  show "strings_TrimSpace line \<noteq> [] \<and> \<not> filter_drops L r line
    \<longrightarrow> processLine L r line =
         (if OnlyQuery (cfg r) then only_query_transform L (strings_TrimSpace line)
          else if OnlyQueryKeys (cfg r) then only_query_keys_transform L (strings_TrimSpace line)
          else if NoQuery (cfg r) then no_query_transform L (strings_TrimSpace line)
          else [strings_TrimSpace line])"
    using processLine_kept [of line L r] by blast
  show "Subs (cfg r)
    \<longrightarrow> startPrinter L r rs = printSubdomains L r rs
      \<and> startPrinter L r rs = startPrinter L (r\<lparr>cfg := (cfg r)\<lparr>ExtractPaths := False\<rparr>\<rparr>) rs"
    by (simp add: startPrinter_def printSubdomains_def finishOutput_def)
  show "\<not> Subs (cfg r) \<and> ExtractPaths (cfg r) \<longrightarrow> startPrinter L r rs = printPaths L r rs"
    by (simp add: startPrinter_def)
  show "\<not> Subs (cfg r) \<and> \<not> ExtractPaths (cfg r) \<longrightarrow> startPrinter L r rs = printDefault r rs"
    by (simp add: startPrinter_def)
qed

theorem mode_precedence_witness:
  "processLine go
     (runner_literal ((flag_defaults ''h'')
        \<lparr>OnlyQuery := True, OnlyQueryKeys := True, NoQuery := True\<rparr>) False)
     ''http://h/p?a=1&b=2'' = [''a=1&b=2'']
   \<and> written (startPrinter go
       (runner_literal ((flag_defaults ''h.org'')\<lparr>ExtractPaths := True, Subs := True\<rparr>) False)
       [''http://a.h.org/p/q'']) = [''a.h.org'']"
proof -
  have pre: "OnlyQuery (cfg (runner_literal ((flag_defaults ''h'')
        \<lparr>OnlyQuery := True, OnlyQueryKeys := True, NoQuery := True\<rparr>) False))"
    by code_simp
  have val: "processLine go
      ((runner_literal ((flag_defaults ''h'')
        \<lparr>OnlyQuery := True, OnlyQueryKeys := True, NoQuery := True\<rparr>) False)
        \<lparr>cfg := (cfg (runner_literal ((flag_defaults ''h'')
        \<lparr>OnlyQuery := True, OnlyQueryKeys := True, NoQuery := True\<rparr>) False))
           \<lparr>OnlyQueryKeys := False, NoQuery := False\<rparr>\<rparr>)
      ''http://h/p?a=1&b=2'' = [''a=1&b=2'']"
    by code_simp
  have pre2: "Subs (cfg (runner_literal
      ((flag_defaults ''h.org'')\<lparr>ExtractPaths := True, Subs := True\<rparr>) False))"
    by code_simp
  have val2: "written (printSubdomains go
       (runner_literal ((flag_defaults ''h.org'')\<lparr>ExtractPaths := True, Subs := True\<rparr>) False)
       [''http://a.h.org/p/q'']) = [''a.h.org'']"
    by code_simp
  from mode_precedence
    [of "runner_literal ((flag_defaults ''h'')
        \<lparr>OnlyQuery := True, OnlyQueryKeys := True, NoQuery := True\<rparr>) False" go
       "''http://h/p?a=1&b=2''"]
    pre val
  have first: "processLine go
     (runner_literal ((flag_defaults ''h'')
        \<lparr>OnlyQuery := True, OnlyQueryKeys := True, NoQuery := True\<rparr>) False)
     ''http://h/p?a=1&b=2'' = [''a=1&b=2'']"
    by presburger
  from mode_precedence
    [of "runner_literal ((flag_defaults ''h.org'')\<lparr>ExtractPaths := True, Subs := True\<rparr>) False"
       go _ "[''http://a.h.org/p/q'']"]
    pre2 val2
  have second: "written (startPrinter go
       (runner_literal ((flag_defaults ''h.org'')\<lparr>ExtractPaths := True, Subs := True\<rparr>) False)
       [''http://a.h.org/p/q'']) = [''a.h.org'']"
    by presburger
  from first second show ?thesis by (rule conjI)
qed

subsection \<open>Pattern normalisation\<close>

lemma strings_Contains_byte: "strings_Contains s [c] \<longleftrightarrow> c \<in> set s"
  by (induction s) (auto simp: strings_Contains_def)

lemma strings_IndexAny_cut:
  "(case strings_IndexAny s cs of Some idx \<Rightarrow> take idx s | None \<Rightarrow> s)
   = takeWhile (\<lambda>c. c \<notin> set cs) s"
  by (induction s) (auto split: option.splits)

lemma strings_ReplaceAll_delete: "strings_ReplaceAll s c [] = filter (\<lambda>x. x \<noteq> c) s"
  by (induction s) (auto simp: strings_ReplaceAll_def)

lemma normalizeURLForCDX_clean:
  "normalizeURLForCDX u subs =
     (if subs then ''*.'' @ cdx_clean u
      else if CHR ''*'' \<notin> set u then cdx_clean u @ ''*''
      else u)"
proof -
  have "(\<lambda>c. c \<notin> set [CHR ''/'', CHR '':'', CHR 0x5C, CHR 0x5C])
        = (\<lambda>c. c \<noteq> CHR ''/'' \<and> c \<noteq> CHR '':'' \<and> c \<noteq> CHR 0x5C)"
    by auto
  then show ?thesis
    by (simp add: normalizeURLForCDX_def cdx_clean_def strip_scheme_def Let_def
        strings_IndexAny_cut strings_ReplaceAll_delete strings_Contains_byte)
qed

lemma suffix_trim_left_space: "suffix (trim_left_space s) s"
  by (induction s rule: trim_left_space.induct) (auto simp: suffix_Cons)

lemma suffix_trim_right_space_rev: "suffix (trim_right_space_rev s) s"
  by (induction s rule: trim_right_space_rev.induct) (auto simp: suffix_Cons)

lemma sublist_TrimSpace: "sublist (strings_TrimSpace s) s"
proof -
  have "sublist (trim_right_space_rev (rev (trim_left_space s))) (rev (trim_left_space s))"
    by (rule suffix_imp_sublist) (rule suffix_trim_right_space_rev)
  then have "sublist (strings_TrimSpace s) (trim_left_space s)"
    by (simp add: strings_TrimSpace_def sublist_rev_left)
  moreover have "sublist (trim_left_space s) s"
    by (rule suffix_imp_sublist) (rule suffix_trim_left_space)
  ultimately show ?thesis by (rule sublist_order.order.trans)
qed

lemma sublist_TrimPrefix: "sublist (strings_TrimPrefix s p) s"
  by (simp add: strings_TrimPrefix_def)

lemma sublist_Trim: "sublist (strings_Trim s cs) s"
proof -
  have "sublist (dropWhile (\<lambda>c. c \<in> set cs) (rev (dropWhile (\<lambda>c. c \<in> set cs) s)))
          (rev (dropWhile (\<lambda>c. c \<in> set cs) s))"
    by (rule sublist_dropWhile)
  then have "sublist (strings_Trim s cs) (dropWhile (\<lambda>c. c \<in> set cs) s)"
    by (simp add: strings_Trim_def sublist_rev_left)
  moreover have "sublist (dropWhile (\<lambda>c. c \<in> set cs) s) s"
    by (rule sublist_dropWhile)
  ultimately show ?thesis by (rule sublist_order.order.trans)
qed

lemma sublist_filter:
  assumes "sublist xs ys"
  shows "sublist (filter P xs) (filter P ys)"
proof -
  from assms obtain ps ss where "ys = ps @ xs @ ss"
    by (auto simp: sublist_def)
  then have "filter P ys = filter P ps @ filter P xs @ filter P ss" by simp
  then show ?thesis by (simp only: sublist_appendI)
qed

lemma last_dropWhile:
  assumes "dropWhile P xs \<noteq> []"
  shows "last (dropWhile P xs) = last xs"
proof -
  have "xs = takeWhile P xs @ dropWhile P xs" by simp
  then have "last xs = last (takeWhile P xs @ dropWhile P xs)" by simp
  also from assms have "\<dots> = last (dropWhile P xs)" by (rule last_appendR)
  finally show ?thesis by simp
qed

lemma Trim_ends:
  assumes "strings_Trim s cs \<noteq> []"
  shows "hd (strings_Trim s cs) \<notin> set cs \<and> last (strings_Trim s cs) \<notin> set cs"
proof -
  define P where "P = (\<lambda>c. c \<in> set cs)"
  define d where "d = dropWhile P s"
  define e where "e = dropWhile P (rev d)"
  have t: "strings_Trim s cs = rev e"
    by (simp add: strings_Trim_def e_def d_def P_def)
  with assms have e: "e \<noteq> []" by simp
  then have d: "d \<noteq> []" by (auto simp: e_def)
  from e have "\<not> P (hd e)" unfolding e_def by (rule hd_dropWhile)
  moreover from e have "last e = last (rev d)" unfolding e_def by (rule last_dropWhile)
  moreover from d have "\<not> P (hd d)" unfolding d_def by (rule hd_dropWhile)
  ultimately show ?thesis
    by (simp add: t hd_rev last_rev P_def)
qed

lemma cdx_clean_chars:
  "CHR ''*'' \<notin> set (cdx_clean u) \<and> CHR ''/'' \<notin> set (cdx_clean u)
   \<and> CHR '':'' \<notin> set (cdx_clean u) \<and> CHR 0x5C \<notin> set (cdx_clean u)"
proof -
  define t where "t = takeWhile (\<lambda>c. c \<noteq> CHR ''/'' \<and> c \<noteq> CHR '':'' \<and> c \<noteq> CHR 0x5C)
             (strip_scheme (strings_TrimSpace u))"
  have "set (cdx_clean u) \<subseteq> set (filter (\<lambda>c. c \<noteq> CHR ''*'') t)"
    unfolding cdx_clean_def t_def by (rule set_mono_sublist) (rule sublist_Trim)
  moreover have "\<forall>c \<in> set t. c \<noteq> CHR ''/'' \<and> c \<noteq> CHR '':'' \<and> c \<noteq> CHR 0x5C"
    unfolding t_def by (auto dest: set_takeWhileD)
  ultimately show ?thesis by auto
qed

lemma cdx_clean_sublist: "sublist (cdx_clean u) (filter (\<lambda>c. c \<noteq> CHR ''*'') u)"
proof -
  define s1 where "s1 = strings_TrimSpace u"
  define s2 where "s2 = strip_scheme s1"
  define s3 where "s3 = takeWhile (\<lambda>c. c \<noteq> CHR ''/'' \<and> c \<noteq> CHR '':'' \<and> c \<noteq> CHR 0x5C) s2"
  have "sublist s1 u" unfolding s1_def by (rule sublist_TrimSpace)
  moreover have "sublist s2 s1"
    unfolding s2_def strip_scheme_def
    by (rule sublist_order.order.trans [OF sublist_TrimPrefix sublist_TrimPrefix])
  moreover have "sublist s3 s2" unfolding s3_def by (rule sublist_takeWhile)
  ultimately have "sublist s3 u"
    by (meson sublist_order.order.trans)
  then have "sublist (filter (\<lambda>c. c \<noteq> CHR ''*'') s3) (filter (\<lambda>c. c \<noteq> CHR ''*'') u)"
    by (rule sublist_filter)
  moreover have "sublist (cdx_clean u) (filter (\<lambda>c. c \<noteq> CHR ''*'') s3)"
    unfolding cdx_clean_def s3_def s2_def s1_def by (rule sublist_Trim)
  ultimately show ?thesis by (meson sublist_order.order.trans)
qed

lemma cdx_clean_ends:
  "cdx_clean u \<noteq> [] \<Longrightarrow>
     hd (cdx_clean u) \<noteq> CHR '' '' \<and> hd (cdx_clean u) \<noteq> CHR ''.''
     \<and> last (cdx_clean u) \<noteq> CHR '' '' \<and> last (cdx_clean u) \<noteq> CHR ''.''"
  unfolding cdx_clean_def using Trim_ends [of _ "'' .''"] by simp

lemma takeWhile_host:
  assumes "cdx_host h" and "cdx_tail t"
  shows "takeWhile (\<lambda>c. c \<noteq> CHR ''/'' \<and> c \<noteq> CHR '':'' \<and> c \<noteq> CHR 0x5C) (h @ t) = h"
proof -
  from assms(1) have "\<forall>c \<in> set h. c \<noteq> CHR ''/'' \<and> c \<noteq> CHR '':'' \<and> c \<noteq> CHR 0x5C"
    by (simp add: cdx_host_def)
  then have "takeWhile (\<lambda>c. c \<noteq> CHR ''/'' \<and> c \<noteq> CHR '':'' \<and> c \<noteq> CHR 0x5C) (h @ t)
      = h @ takeWhile (\<lambda>c. c \<noteq> CHR ''/'' \<and> c \<noteq> CHR '':'' \<and> c \<noteq> CHR 0x5C) t"
    by (simp add: takeWhile_append2)
  moreover from assms(2)
  have "takeWhile (\<lambda>c. c \<noteq> CHR ''/'' \<and> c \<noteq> CHR '':'' \<and> c \<noteq> CHR 0x5C) t = []"
    by (cases t) (auto simp: cdx_tail_def)
  ultimately show ?thesis by simp
qed

lemma no_http_prefix:
  assumes "cdx_host h" and "cdx_tail t"
  shows "\<not> prefix ''http://'' (h @ t)"
proof
  assume "prefix ''http://'' (h @ t)"
  then obtain r where eq: "h @ t = ''http://'' @ r"
    by (auto simp: prefix_def)
  have "takeWhile (\<lambda>c. c \<noteq> CHR ''/'' \<and> c \<noteq> CHR '':'' \<and> c \<noteq> CHR 0x5C) (''http://'' @ r)
        = ''http''"
    by simp
  with eq have "takeWhile (\<lambda>c. c \<noteq> CHR ''/'' \<and> c \<noteq> CHR '':'' \<and> c \<noteq> CHR 0x5C) (h @ t)
        = ''http''"
    by (simp only:)
  with takeWhile_host [OF assms] have "h = ''http''" by (simp only:)
  with assms(1) show False by (simp add: cdx_host_def)
qed

lemma no_https_prefix:
  assumes "cdx_host h" and "cdx_tail t"
  shows "\<not> prefix ''https://'' (h @ t)"
proof
  assume "prefix ''https://'' (h @ t)"
  then obtain r where eq: "h @ t = ''https://'' @ r"
    by (auto simp: prefix_def)
  have "takeWhile (\<lambda>c. c \<noteq> CHR ''/'' \<and> c \<noteq> CHR '':'' \<and> c \<noteq> CHR 0x5C) (''https://'' @ r)
        = ''https''"
    by simp
  with eq have "takeWhile (\<lambda>c. c \<noteq> CHR ''/'' \<and> c \<noteq> CHR '':'' \<and> c \<noteq> CHR 0x5C) (h @ t)
        = ''https''"
    by (simp only:)
  with takeWhile_host [OF assms] have "h = ''https''" by (simp only:)
  with assms(1) show False by (simp add: cdx_host_def)
qed

lemma strip_scheme_host:
  assumes "cdx_host h" and "cdx_tail t"
    and "s = [] \<or> s = ''http://'' \<or> s = ''https://''"
  shows "strip_scheme (s @ h @ t) = h @ t"
  using assms(3) no_http_prefix [OF assms(1,2)] no_https_prefix [OF assms(1,2)]
  by (auto simp: strip_scheme_def strings_TrimPrefix_def strings_HasPrefix_def)

lemma Trim_host:
  assumes "cdx_host h"
  shows "strings_Trim h '' .'' = h"
proof (cases "h = []")
  case True
  then show ?thesis by (simp add: strings_Trim_def)
next
  case False
  with assms have ends: "hd h \<noteq> CHR '' ''" "hd h \<noteq> CHR ''.''"
      "last h \<noteq> CHR '' ''" "last h \<noteq> CHR ''.''"
    by (simp_all add: cdx_host_def)
  from False ends have "dropWhile (\<lambda>c. c \<in> set '' .'') h = h"
    by (cases h) auto
  moreover from False ends have "dropWhile (\<lambda>c. c \<in> set '' .'') (rev h) = rev h"
    by (cases "rev h") (auto simp: last_rev [symmetric] simp del: last_rev)
  ultimately show ?thesis by (simp add: strings_Trim_def)
qed

lemma cdx_clean_host:
  assumes "cdx_host h" and "cdx_tail t"
    and "s = [] \<or> s = ''http://'' \<or> s = ''https://''"
    and "strings_TrimSpace u = s @ h @ t"
  shows "cdx_clean u = h"
proof -
  have "filter (\<lambda>c. c \<noteq> CHR ''*'') h = h"
    using assms(1) by (auto simp: cdx_host_def intro: filter_True)
  then show ?thesis
    by (simp add: cdx_clean_def assms(4) strip_scheme_host [OF assms(1-3)]
        takeWhile_host [OF assms(1,2)] Trim_host [OF assms(1)])
qed

text \<open>
  Claim C2, amended. The function trims the white space around the pattern, removes a
  leading \<open>http://\<close> and then a leading \<open>https://\<close> (these two lower-case spellings and
  no other scheme), cuts the rest at its first \<open>/\<close>, \<open>:\<close> or backslash, removes every
  \<open>*\<close> and trims dots and spaces at both ends. The cleaned pattern so obtained holds no
  \<open>*\<close>, \<open>/\<close>, \<open>:\<close> or backslash, neither starts nor ends with a dot or a space, and is a
  contiguous piece of the input once the \<open>*\<close> are removed. For a trimmed pattern made of
  nothing, \<open>http://\<close> or \<open>https://\<close>, then a host, then nothing or a path or port, it is
  the host; for another scheme or letter case it is the name of the scheme, as
  \<open>HTTP\<close> for \<open>HTTP://Example.com\<close>. In subdomain mode the function returns \<open>*.\<close>
  followed by the cleaned pattern. Otherwise, when the input holds no \<open>*\<close>, it returns
  the cleaned pattern followed by \<open>*\<close>; and when the input holds a \<open>*\<close>, it returns
  the input itself, unchanged.
\<close>

theorem normalizeURLForCDX_cases:
  "normalizeURLForCDX u subs =
     (if subs then ''*.'' @ cdx_clean u
      else if CHR ''*'' \<notin> set u then cdx_clean u @ ''*''
      else u)
   \<and> CHR ''*'' \<notin> set (cdx_clean u) \<and> CHR ''/'' \<notin> set (cdx_clean u)
   \<and> CHR '':'' \<notin> set (cdx_clean u) \<and> CHR 0x5C \<notin> set (cdx_clean u)
   \<and> (cdx_clean u \<noteq> [] \<longrightarrow>
        hd (cdx_clean u) \<noteq> CHR '' '' \<and> hd (cdx_clean u) \<noteq> CHR ''.''
        \<and> last (cdx_clean u) \<noteq> CHR '' '' \<and> last (cdx_clean u) \<noteq> CHR ''.'')
   \<and> sublist (cdx_clean u) (filter (\<lambda>c. c \<noteq> CHR ''*'') u)
   \<and> (cdx_host h \<and> cdx_tail t \<and> (s = [] \<or> s = ''http://'' \<or> s = ''https://'')
        \<and> strings_TrimSpace u = s @ h @ t
      \<longrightarrow> cdx_clean u = h)
   \<and> cdx_clean ''HTTP://Example.com'' = ''HTTP''
   \<and> normalizeURLForCDX ''HTTP://Example.com'' False = ''HTTP*''
   \<and> normalizeURLForCDX ''ftp://example.com/x'' True = ''*.ftp''"
proof -
  have host: "cdx_host h \<and> cdx_tail t \<and> (s = [] \<or> s = ''http://'' \<or> s = ''https://'')
        \<and> strings_TrimSpace u = s @ h @ t
      \<longrightarrow> cdx_clean u = h"
    using cdx_clean_host [of h t s u] by blast
  have e1: "cdx_clean ''HTTP://Example.com'' = ''HTTP''"
    by code_simp
  have e2: "normalizeURLForCDX ''HTTP://Example.com'' False = ''HTTP*''"
    by code_simp
  have e3: "normalizeURLForCDX ''ftp://example.com/x'' True = ''*.ftp''"
    by code_simp
  from normalizeURLForCDX_clean [of u subs] cdx_clean_chars [of u] cdx_clean_ends [of u]
    cdx_clean_sublist [of u] host e1 e2 e3
  show ?thesis by blast
qed

theorem normalizeURLForCDX_cases_witness:
  "normalizeURLForCDX '' http://www.Example.com:8080/path '' False = ''www.Example.com*''
   \<and> normalizeURLForCDX ''https://.a*b.org./x'' True = ''*.ab.org''"
proof -
  have pre: "cdx_host ''www.Example.com'' \<and> cdx_tail '':8080/path''
      \<and> (''http://'' = [] \<or> ''http://'' = ''http://'' \<or> ''http://'' = ''https://'')
      \<and> strings_TrimSpace '' http://www.Example.com:8080/path ''
          = ''http://'' @ ''www.Example.com'' @ '':8080/path''"
    by code_simp
  have n1: "CHR ''*'' \<notin> set '' http://www.Example.com:8080/path ''"
    by code_simp
  have c2: "cdx_clean ''https://.a*b.org./x'' = ''ab.org''"
    by code_simp
  note inst1 = normalizeURLForCDX_cases
    [of "'' http://www.Example.com:8080/path ''" False "''www.Example.com''"
       "'':8080/path''" "''http://''"]
  from inst1 pre have c1: "cdx_clean '' http://www.Example.com:8080/path '' = ''www.Example.com''"
    by blast
  from inst1
  have "normalizeURLForCDX '' http://www.Example.com:8080/path '' False =
     (if False then ''*.'' @ cdx_clean '' http://www.Example.com:8080/path ''
      else if CHR ''*'' \<notin> set '' http://www.Example.com:8080/path ''
        then cdx_clean '' http://www.Example.com:8080/path '' @ ''*''
      else '' http://www.Example.com:8080/path '')"
    by (rule conjunct1)
  with n1 have first:
    "normalizeURLForCDX '' http://www.Example.com:8080/path '' False = ''www.Example.com*''"
    by (simp add: c1)
  from normalizeURLForCDX_cases [of "''https://.a*b.org./x''" True]
  have "normalizeURLForCDX ''https://.a*b.org./x'' True =
     (if True then ''*.'' @ cdx_clean ''https://.a*b.org./x''
      else if CHR ''*'' \<notin> set ''https://.a*b.org./x''
        then cdx_clean ''https://.a*b.org./x'' @ ''*''
      else ''https://.a*b.org./x'')"
    by (rule conjunct1)
  then have second: "normalizeURLForCDX ''https://.a*b.org./x'' True = ''*.ab.org''"
    by (simp add: c2)
  from first second show ?thesis by (rule conjI)
qed

text \<open>
  The claim as it stands fails twice: a pattern that holds a wildcard comes back as it
  was given, scheme and path included; and a scheme in capitals is not stripped, its
  name is what stays.
\<close>

theorem normalizeURLForCDX_counterexample:
  "normalizeURLForCDX ''https://*.example.com/a'' False = ''https://*.example.com/a''
   \<and> cdx_clean ''https://*.example.com/a'' = ''example.com''
   \<and> normalizeURLForCDX ''HTTP://Example.com'' False = ''HTTP*''"
  by code_simp

subsection \<open>The page count\<close>

lemma scan_numStr_blank:
  "\<forall>t \<in> set ts. strings_TrimSpace (fst t) = [] \<Longrightarrow> scan_numStr ts fin = ([], fin)"
  by (induction ts) (auto simp: Let_def)

lemma scan_numStr_first:
  "\<forall>t \<in> set pre. strings_TrimSpace (fst t) = [] \<Longrightarrow> strings_TrimSpace text \<noteq> [] \<Longrightarrow>
   scan_numStr (pre @ (text, err) # post) fin = (strings_TrimSpace text, err)"
  by (induction pre) (auto simp: Let_def)

text \<open>
  Claim C4, amended. When the request succeeds and the body is read without error: a
  body with no non-blank line gives zero pages and no warning; otherwise the first
  non-blank line, trimmed, goes to \<^verbatim>\<open>strconv.Atoi\<close>, and when that fails (the line is
  not an optional sign followed by decimal digits, or does not fit an \<^verbatim>\<open>int\<close>) the
  result is one page and a warning, while a line it accepts is the page count, negative
  or not.
\<close>

theorem page_count:
  "((\<forall>t \<in> set (tokens (Body resp)). strings_TrimSpace (fst t) = [])
      \<and> finalErr (Body resp) = None
    \<longrightarrow> fetchPageCount None (Inr resp) = (Inr 0, []))
   \<and> (tokens (Body resp) = pre @ (text, None) # post
      \<and> (\<forall>t \<in> set pre. strings_TrimSpace (fst t) = []) \<and> strings_TrimSpace text \<noteq> []
    \<longrightarrow> fetchPageCount None (Inr resp) =
          (case strconv_Atoi (strings_TrimSpace text) of
             None \<Rightarrow> (Inr 1, [CouldNotParsePageCount (strings_TrimSpace text)])
           | Some pages \<Rightarrow> (Inr pages, [])))"
  by (simp add: fetchPageCount_def scan_numStr_blank scan_numStr_first)

theorem page_count_witness:
  "fetchPageCount None
     (Inr \<lparr>StatusCode = 200,
           Body = \<lparr>tokens = [(''  '', None), ('' 12x '', None), (''7'', None)],
                   finalErr = None\<rparr>\<rparr>)
   = (Inr 1, [CouldNotParsePageCount ''12x''])"
proof -
  have pre: "tokens (Body \<lparr>StatusCode = 200,
           Body = \<lparr>tokens = [(''  '', None), ('' 12x '', None), (''7'', None)],
                   finalErr = None\<rparr>\<rparr>)
      = [(''  '', None)] @ ('' 12x '', None) # [(''7'', None)]
      \<and> (\<forall>t \<in> set [(''  '', None :: string option)]. strings_TrimSpace (fst t) = [])
      \<and> strings_TrimSpace '' 12x '' \<noteq> []"
    by code_simp
  have val: "(case strconv_Atoi (strings_TrimSpace '' 12x '') of
             None \<Rightarrow> (Inr 1, [CouldNotParsePageCount (strings_TrimSpace '' 12x '')])
           | Some pages \<Rightarrow> (Inr pages, []))
      = (Inr 1 :: run_error + int, [CouldNotParsePageCount ''12x''])"
    by code_simp
  from page_count
    [of "\<lparr>StatusCode = 200,
           Body = \<lparr>tokens = [(''  '', None), ('' 12x '', None), (''7'', None)],
                   finalErr = None\<rparr>\<rparr>"
       "[(''  '', None)]" "'' 12x ''" "[(''7'', None)]"]
    pre val
  show ?thesis by presburger
qed

text \<open>
  The claim as it stands fails: \<open>-3\<close> is not a non-negative integer, and the result is
  neither one page nor a warning.
\<close>

theorem page_count_counterexample:
  "fetchPageCount None
     (Inr \<lparr>StatusCode = 200, Body = \<lparr>tokens = [(''-3'', None)], finalErr = None\<rparr>\<rparr>)
   = (Inr (- 3), [])"
  by code_simp

subsection \<open>Retrieval with retries\<close>

lemma fetchWithRetry_loop_4: "fetchWithRetry_loop req do 4 ierr = ((None, ierr), [])"
  by (subst fetchWithRetry_loop.simps) (simp add: maxRetries_def)

lemma fetchWithRetry_loop_3:
  "fetchWithRetry_loop None do 3 ierr =
     (if attempt_ok (do 3) then ((fst (do 3), None), [ClientDo 3])
      else ((None, snd (do 3)), failed_attempt 3 (do 3)))"
  by (subst fetchWithRetry_loop.simps)
     (simp add: maxRetries_def fetchWithRetry_loop_4 failed_attempt_def)

lemma fetchWithRetry_loop_2:
  "fetchWithRetry_loop None do 2 ierr =
     (if attempt_ok (do 2) then ((fst (do 2), None), [ClientDo 2])
      else if attempt_ok (do 3)
        then ((fst (do 3), None), failed_attempt 2 (do 2) @ [ClientDo 3])
      else ((None, snd (do 3)), failed_attempt 2 (do 2) @ failed_attempt 3 (do 3)))"
  by (subst fetchWithRetry_loop.simps)
     (simp add: maxRetries_def fetchWithRetry_loop_3 failed_attempt_def)

lemma fetchWithRetry_unrolled:
  "fetchWithRetry None do =
     (if attempt_ok (do 1) then ((fst (do 1), None), [ClientDo 1])
      else if attempt_ok (do 2)
        then ((fst (do 2), None), failed_attempt 1 (do 1) @ [ClientDo 2])
      else if attempt_ok (do 3)
        then ((fst (do 3), None),
              failed_attempt 1 (do 1) @ failed_attempt 2 (do 2) @ [ClientDo 3])
      else ((None, snd (do 3)),
            failed_attempt 1 (do 1) @ failed_attempt 2 (do 2) @ failed_attempt 3 (do 3)))"
  unfolding fetchWithRetry_def
  by (subst fetchWithRetry_loop.simps)
     (simp del: One_nat_def add: maxRetries_def fetchWithRetry_loop_2 failed_attempt_def)

lemma fetchWithRetry_no_request:
  "fetchWithRetry (Some err) do = ((None, Some err), [])"
  unfolding fetchWithRetry_def
  by (subst fetchWithRetry_loop.simps) (simp add: maxRetries_def)

lemma attempts_le: "attempts (snd (fetchWithRetry req do)) \<le> 3"
  by (cases req)
     (simp_all add: fetchWithRetry_unrolled fetchWithRetry_no_request attempts_def
        failed_attempt_def)

lemma attempt_ok_iff:
  "attempt_ok out \<longleftrightarrow>
     snd out = None
     \<and> (\<exists>resp. fst out = Some resp \<and> 200 \<le> StatusCode resp \<and> StatusCode resp < 300)"
  by (cases out) (auto simp: attempt_ok_def split: option.splits)

text \<open>
  Claim C5. A page fetch makes at most three requests. An attempt succeeds exactly when
  the client returns no error and a response whose status is from 200 to 299. The
  fetch is the first successful attempt among the first three, each failed attempt
  before it being followed by the closing of its response body (if it has a response),
  a warning and a sleep of as many seconds as the number of the attempt: 1, 2, 3. After
  a third failure nothing more is tried.
\<close>

theorem bounded_retry:
  "attempts (snd (fetchWithRetry req do)) \<le> 3
   \<and> (attempt_ok out \<longleftrightarrow>
        snd out = None
        \<and> (\<exists>resp. fst out = Some resp \<and> 200 \<le> StatusCode resp \<and> StatusCode resp < 300))
   \<and> fetchWithRetry None do =
       (if attempt_ok (do 1) then ((fst (do 1), None), [ClientDo 1])
        else if attempt_ok (do 2)
          then ((fst (do 2), None), failed_attempt 1 (do 1) @ [ClientDo 2])
        else if attempt_ok (do 3)
          then ((fst (do 3), None),
                failed_attempt 1 (do 1) @ failed_attempt 2 (do 2) @ [ClientDo 3])
        else ((None, snd (do 3)),
              failed_attempt 1 (do 1) @ failed_attempt 2 (do 2) @ failed_attempt 3 (do 3)))
   \<and> fetchWithRetry (Some err) do = ((None, Some err), [])"
  using attempts_le [of req do] attempt_ok_iff [of out] fetchWithRetry_unrolled [of do]
    fetchWithRetry_no_request [of err do]
  by (intro conjI)

theorem bounded_retry_witness:
  "fetchWithRetry None
     (\<lambda>n. if n = 1 then (None, Some ''timeout'')
          else if n = 2
            then (Some \<lparr>StatusCode = 503, Body = \<lparr>tokens = [], finalErr = None\<rparr>\<rparr>, None)
          else (Some \<lparr>StatusCode = 200, Body = \<lparr>tokens = [], finalErr = None\<rparr>\<rparr>, None))
   = ((Some \<lparr>StatusCode = 200, Body = \<lparr>tokens = [], finalErr = None\<rparr>\<rparr>, None),
      [ClientDo 1, LogRetryWarning (Some ''timeout''), Render, Sleep 1,
       ClientDo 2, BodyClose, LogRetryWarning None, Render, Sleep 2,
       ClientDo 3])"
  using bounded_retry
    [of None
       "\<lambda>n. if n = 1 then (None, Some ''timeout'')
          else if n = 2
            then (Some \<lparr>StatusCode = 503, Body = \<lparr>tokens = [], finalErr = None\<rparr>\<rparr>, None)
          else (Some \<lparr>StatusCode = 200, Body = \<lparr>tokens = [], finalErr = None\<rparr>\<rparr>, None)"]
  by (simp add: attempt_ok_def failed_attempt_def)

subsection \<open>The progress counter\<close>

lemma fetch_page_counter: "pagesCompleted (fetch_page env p st) = pagesCompleted st + 1"
  by (auto simp: fetch_page_def split: prod.splits option.splits)

lemma fetch_page_abandoned:
  assumes "newRequest env p = None"
    and "\<not> attempt_ok (client_Do env p 1)"
    and "\<not> attempt_ok (client_Do env p 2)"
    and "\<not> attempt_ok (client_Do env p 3)"
  shows "jobs (fetch_page env p st) = jobs st"
  using assms by (simp add: fetch_page_def fetchWithRetry_unrolled split: option.splits)

lemma fetcher_counter:
  "\<forall>p \<in> set ps. ctx_Err env p = None \<Longrightarrow>
   pagesCompleted (fetcher env ps st) = pagesCompleted st + of_nat (length ps)"
  by (induction ps arbitrary: st) (simp_all add: fetch_page_counter)

lemma pool_counter:
  "\<forall>ps \<in> set sched. \<forall>p \<in> set ps. ctx_Err env p = None \<Longrightarrow>
   pagesCompleted (startPageFetchers env sched st)
   = pagesCompleted st + of_nat (length (concat sched))"
  unfolding startPageFetchers_def
  by (induction sched arbitrary: st) (simp_all add: fetcher_counter)

lemma length_schedule:
  assumes "distinct (concat sched)" and "set (concat sched) = set (page_indices pages)"
  shows "length (concat sched) = nat pages"
proof -
  from assms(1) have "length (concat sched) = card (set (concat sched))"
    by (rule distinct_card [symmetric])
  also from assms(2) have "\<dots> = card (set (page_indices pages))" by simp
  also have "\<dots> = nat pages" by (simp add: page_indices_def)
  finally show ?thesis .
qed

lemma sint_counter: "n < 2 ^ 31 \<Longrightarrow> sint (word_of_nat n :: 32 word) = int n"
  by (simp add: signed_of_nat signed_take_bit_int_eq_self)

text \<open>
  Claim C9. Handling a page index adds one to the counter, whatever the archive
  answers: when the body is read to its end, and when the three attempts have failed
  and the page is given up with no line sent. Under the context \<^verbatim>\<open>main\<close> passes, whose
  \<^verbatim>\<open>Err\<close> is always nil, once every index below the page count has been received by
  one fetcher and handled, the counter is the page count: as a 32-bit value in general,
  and as a number when the page count is below \<open>2^31\<close>.
\<close>

theorem progress_counter:
  "pagesCompleted (fetch_page env p st) = pagesCompleted st + 1
   \<and> (newRequest env p = None \<and> \<not> attempt_ok (client_Do env p 1)
        \<and> \<not> attempt_ok (client_Do env p 2) \<and> \<not> attempt_ok (client_Do env p 3)
      \<longrightarrow> jobs (fetch_page env p st) = jobs st)
   \<and> (ctx_Err env = context_Background
        \<and> distinct (concat sched) \<and> set (concat sched) = set (page_indices pages)
      \<longrightarrow> pagesCompleted (startPageFetchers env sched fetch_init) = word_of_nat (nat pages))
   \<and> (ctx_Err env = context_Background
        \<and> distinct (concat sched) \<and> set (concat sched) = set (page_indices pages)
        \<and> 0 \<le> pages \<and> pages < 2 ^ 31
      \<longrightarrow> sint (pagesCompleted (startPageFetchers env sched fetch_init)) = pages)"
proof (intro conjI impI)
  show "pagesCompleted (fetch_page env p st) = pagesCompleted st + 1"
    by (rule fetch_page_counter)
  show "jobs (fetch_page env p st) = jobs st"
    if "newRequest env p = None \<and> \<not> attempt_ok (client_Do env p 1)
        \<and> \<not> attempt_ok (client_Do env p 2) \<and> \<not> attempt_ok (client_Do env p 3)"
    using that by (simp add: fetch_page_abandoned)
  show total: "pagesCompleted (startPageFetchers env sched fetch_init) = word_of_nat (nat pages)"
    if h: "ctx_Err env = context_Background
        \<and> distinct (concat sched) \<and> set (concat sched) = set (page_indices pages)"
    for pages
  proof -
    from h have "\<forall>ps \<in> set sched. \<forall>p \<in> set ps. ctx_Err env p = None"
      by (simp add: context_Background_def)
    then have "pagesCompleted (startPageFetchers env sched fetch_init)
        = pagesCompleted fetch_init + of_nat (length (concat sched))"
      by (rule pool_counter)
    moreover from h have "length (concat sched) = nat pages"
      by (simp add: length_schedule)
    ultimately show ?thesis by (simp add: fetch_init_def)
  qed
  show "sint (pagesCompleted (startPageFetchers env sched fetch_init)) = pages"
    if h: "ctx_Err env = context_Background
        \<and> distinct (concat sched) \<and> set (concat sched) = set (page_indices pages)
        \<and> 0 \<le> pages \<and> pages < 2 ^ 31"
  proof -
    from h have eq: "pagesCompleted (startPageFetchers env sched fetch_init)
        = word_of_nat (nat pages)"
      using total [of pages] by blast
    from h have "nat pages < 2 ^ 31"
      by (simp add: nat_less_iff)
    then have "sint (word_of_nat (nat pages) :: 32 word) = int (nat pages)"
      by (rule sint_counter)
    also from h have "int (nat pages) = pages" by simp
    finally have "sint (word_of_nat (nat pages) :: 32 word) = pages" .
    with eq show ?thesis by (simp only:)
  qed
qed

theorem progress_counter_witness:
  "sint (pagesCompleted (startPageFetchers
      \<lparr>ctx_Err = context_Background, newRequest = (\<lambda>p. None),
       client_Do = (\<lambda>p n. if p = 0
          then (Some \<lparr>StatusCode = 503, Body = \<lparr>tokens = [], finalErr = None\<rparr>\<rparr>, None)
          else (Some \<lparr>StatusCode = 200,
                      Body = \<lparr>tokens = [(''http://h/a '', None), ([], None)],
                              finalErr = None\<rparr>\<rparr>, None))\<rparr>
      [[1], [0]] fetch_init)) = 2"
proof -
  have pre: "distinct (concat [[1], [0 :: nat]])
      \<and> set (concat [[1], [0 :: nat]]) = set (page_indices 2)"
    by (auto simp: page_indices_def)
  from progress_counter
    [of "\<lparr>ctx_Err = context_Background, newRequest = (\<lambda>p. None),
       client_Do = (\<lambda>p n. if p = 0
          then (Some \<lparr>StatusCode = 503, Body = \<lparr>tokens = [], finalErr = None\<rparr>\<rparr>, None)
          else (Some \<lparr>StatusCode = 200,
                      Body = \<lparr>tokens = [(''http://h/a '', None), ([], None)],
                              finalErr = None\<rparr>\<rparr>, None))\<rparr>"
       _ _ "[[1], [0]]" 2]
    pre
  show ?thesis by simp
qed

end
